theory Spec2Isabelle
  imports Main
begin

section \<open>Python values and exceptions\<close>

text \<open>
  The orchestrator of \<^verbatim>\<open>orc/code_orchestration.py\<close> works on untyped JSON data: chat
  messages, the completion response and the parsed function arguments are Python
  dictionaries, lists, strings, integers and \<^verbatim>\<open>None\<close>. They are modelled by one datatype.
  A dictionary is an association list with string keys (the keys of a JSON object), read
  by its first binding. Text that the code only stores, compares with a literal or joins
  is a list of characters, each standing for one code point below 256; the text of the
  groundedness evaluation, whose characters line 194 inspects, is a list of code points of
  any size. Floating-point numbers are outside the model.
\<close>

datatype pyval =
    PNone
  | PBool bool
  | PInt int
  | PStr string
  | PList "pyval list"
  | PDict "(string \<times> pyval) list"

text \<open>
  An exception is a value. \<open>Raised t\<close> is an exception raised by a collaborator
  (completion service, JSON parser, plugin function) whose \<^verbatim>\<open>str(e)\<close> is \<open>t\<close>. The texts of
  the built-in exceptions are those of CPython 3.11.
\<close>

datatype exn =
    KeyError pyval
  | IndexError string
  | TypeError string
  | Raised string

subsection \<open>Rendering: \<^verbatim>\<open>repr\<close> and \<^verbatim>\<open>str(e)\<close>\<close>

definition hex_digit :: "nat \<Rightarrow> char" where
  "hex_digit n = ''0123456789abcdef'' ! (n mod 16)"

definition printable :: "char \<Rightarrow> bool" where
  "printable c = (let n = (of_char c :: nat) in
     \<not> (n < 32 \<or> (127 \<le> n \<and> n \<le> 160) \<or> n = 173))"

definition repr_char :: "char \<Rightarrow> char \<Rightarrow> string" where
  "repr_char q c =
     (if c = CHR 0x5C then [CHR 0x5C, CHR 0x5C]
      else if c = q then [CHR 0x5C, q]
      else if c = CHR 0x09 then [CHR 0x5C, CHR ''t'']
      else if c = CHR 0x0A then [CHR 0x5C, CHR ''n'']
      else if c = CHR 0x0D then [CHR 0x5C, CHR ''r'']
      else if printable c then [c]
      else [CHR 0x5C, CHR ''x'', hex_digit (of_char c div 16), hex_digit (of_char c mod 16)])"

definition repr_str :: "string \<Rightarrow> string" where
  "repr_str s =
     (let q = (if CHR 0x27 \<in> set s \<and> CHR 0x22 \<notin> set s then CHR 0x22 else CHR 0x27)
      in q # concat (map (repr_char q) s) @ [q])"

function dec_nat :: "nat \<Rightarrow> string" where
  "dec_nat n = (if n < 10 then [hex_digit n] else dec_nat (n div 10) @ [hex_digit (n mod 10)])"
  by pat_completeness auto
termination
  by (relation "measure id") auto

definition dec_int :: "int \<Rightarrow> string" where
  "dec_int i = (if i < 0 then CHR ''-'' # dec_nat (nat (- i)) else dec_nat (nat i))"

fun join_str :: "string \<Rightarrow> string list \<Rightarrow> string" where
  "join_str sep [] = []"
| "join_str sep [x] = x"
| "join_str sep (x # y # ys) = x @ sep @ join_str sep (y # ys)"

fun py_repr :: "pyval \<Rightarrow> string" where
  "py_repr PNone = ''None''"
| "py_repr (PBool b) = (if b then ''True'' else ''False'')"
| "py_repr (PInt i) = dec_int i"
| "py_repr (PStr s) = repr_str s"
| "py_repr (PList xs) = ''['' @ join_str '', '' (map py_repr xs) @ '']''"
| "py_repr (PDict kvs) =
     ''{'' @ join_str '', '' (map (\<lambda>(k, v). repr_str k @ '': '' @ py_repr v) kvs) @ ''}''"

text \<open>\<^verbatim>\<open>str(e)\<close>, as the f-string \<^verbatim>\<open>f"... {e}"\<close> renders an exception.\<close>

fun str_exn :: "exn \<Rightarrow> string" where
  "str_exn (KeyError k) = py_repr k"
| "str_exn (IndexError t) = t"
| "str_exn (TypeError t) = t"
| "str_exn (Raised t) = t"

subsection \<open>Subscripts, membership, addition\<close>

definition type_name :: "pyval \<Rightarrow> string" where
  "type_name v = (case v of PNone \<Rightarrow> ''NoneType'' | PBool _ \<Rightarrow> ''bool'' | PInt _ \<Rightarrow> ''int''
     | PStr _ \<Rightarrow> ''str'' | PList _ \<Rightarrow> ''list'' | PDict _ \<Rightarrow> ''dict'')"

definition not_subscriptable :: "pyval \<Rightarrow> exn" where
  "not_subscriptable v = TypeError ([CHR 0x27] @ type_name v @ [CHR 0x27] @ '' object is not subscriptable'')"

text \<open>\<^verbatim>\<open>xs[i]\<close> on a sequence: a negative index counts from the end, out of range is no value.\<close>

definition py_index :: "'a list \<Rightarrow> int \<Rightarrow> 'a option" where
  "py_index xs i =
     (if 0 \<le> i \<and> i < int (length xs) then Some (xs ! nat i)
      else if i < 0 \<and> - int (length xs) \<le> i then Some (xs ! nat (int (length xs) + i))
      else None)"

text \<open>\<^verbatim>\<open>v['key']\<close> with a string literal as the key.\<close>

fun getitem_str :: "pyval \<Rightarrow> string \<Rightarrow> exn + pyval" where
  "getitem_str (PDict kvs) k =
     (case map_of kvs k of Some v \<Rightarrow> Inr v | None \<Rightarrow> Inl (KeyError (PStr k)))"
| "getitem_str (PList xs) k = Inl (TypeError ''list indices must be integers or slices, not str'')"
| "getitem_str (PStr s) k =
     Inl (TypeError (''string indices must be integers, not '' @ [CHR 0x27] @ ''str'' @ [CHR 0x27]))"
| "getitem_str v k = Inl (not_subscriptable v)"

text \<open>\<^verbatim>\<open>v[i]\<close> with an integer literal as the index.\<close>

fun getitem_int :: "pyval \<Rightarrow> int \<Rightarrow> exn + pyval" where
  "getitem_int (PList xs) i =
     (case py_index xs i of Some v \<Rightarrow> Inr v | None \<Rightarrow> Inl (IndexError ''list index out of range''))"
| "getitem_int (PStr s) i =
     (case py_index s i of Some c \<Rightarrow> Inr (PStr [c]) | None \<Rightarrow> Inl (IndexError ''string index out of range''))"
| "getitem_int (PDict kvs) i = Inl (KeyError (PInt i))"
| "getitem_int v i = Inl (not_subscriptable v)"

fun substring :: "string \<Rightarrow> string \<Rightarrow> bool" where
  "substring k [] = (k = [])"
| "substring k (c # cs) = (take (length k) (c # cs) = k \<or> substring k cs)"

text \<open>\<^verbatim>\<open>'key' in v\<close>.\<close>

fun contains_str :: "string \<Rightarrow> pyval \<Rightarrow> exn + bool" where
  "contains_str k (PDict kvs) = Inr (k \<in> set (map fst kvs))"
| "contains_str k (PList xs) = Inr (PStr k \<in> set xs)"
| "contains_str k (PStr s) = Inr (substring k s)"
| "contains_str k v =
     Inl (TypeError (''argument of type '' @ [CHR 0x27] @ type_name v @ [CHR 0x27] @ '' is not iterable''))"

text \<open>\<^verbatim>\<open>n += v\<close> for an integer counter \<open>n\<close>.\<close>

fun add_int :: "int \<Rightarrow> pyval \<Rightarrow> exn + int" where
  "add_int n (PInt m) = Inr (n + m)"
| "add_int n (PBool b) = Inr (n + (if b then 1 else 0))"
| "add_int n v =
     Inl (TypeError (''unsupported operand type(s) for +=: '' @ [CHR 0x27] @ ''int'' @ [CHR 0x27]
        @ '' and '' @ [CHR 0x27] @ type_name v @ [CHR 0x27]))"

section \<open>Collaborators\<close>

text \<open>
  What \<^verbatim>\<open>get_answer\<close> calls and the source file does not define is a parameter:
  \<^item> \<open>get_chat_history_as_messages\<close> (\<^verbatim>\<open>shared.util\<close>), called with \<^verbatim>\<open>include_last_turn=True\<close>;
  \<^item> \<open>prompt_file\<close>, the text read from \<^verbatim>\<open>QUESTION_ANSWERING_PROMPT_FILE\<close>;
  \<^item> \<open>chat_complete messages function_call\<close>, the completion request with the loaded function
    definitions, after its retries: the JSON value returned or the exception re-raised;
  \<^item> \<open>json_loads\<close>, \<^verbatim>\<open>json.loads\<close> on a string;
  \<^item> \<open>Retrieval\<close>, the plugin function \<^verbatim>\<open>rag_plugin["Retrieval"]\<close> run on the context
    variables built from the parsed arguments (lines 122 to 124): the \<^verbatim>\<open>result\<close> text of
    its response, or the exception raised;
  \<^item> \<open>groudedness answer sources\<close>, the semantic function \<^verbatim>\<open>rag_plugin["groudedness"]\<close> run
    through \<^verbatim>\<open>call_semantic_function\<close> on a new context holding the answer and the sources
    (lines 190 to 193): the \<^verbatim>\<open>result\<close> text, or the exception raised;
  \<^item> \<open>get_message\<close> (\<^verbatim>\<open>shared.util\<close>), the fixed message texts;
  \<^item> the interpreter's Unicode database for the code points from 128 on, which differs
    between Python versions: \<open>unicode_digit c\<close> (\<open>c\<close> is a digit for \<^verbatim>\<open>str.isdigit\<close>),
    \<open>unicode_decimal c\<close> (the value of \<open>c\<close> as a decimal digit, 0 to 9, if it is one) and
    \<open>unicode_space c\<close> (\<open>c\<close> is whitespace);
  \<^item> \<open>int_max_str_digits\<close>, the interpreter's limit on the digits of an integer
    conversion (\<^verbatim>\<open>sys.get_int_max_str_digits()\<close>, 4300 unless configured); 0 stands for no
    limit, as in an interpreter that has none.
  The kernel set-up and the two file reads of lines 82 to 102 are taken to succeed.
\<close>

record collaborators =
  get_chat_history_as_messages :: "pyval list \<Rightarrow> pyval list"
  prompt_file :: string
  chat_complete :: "pyval list \<Rightarrow> string \<Rightarrow> exn + pyval"
  json_loads :: "string \<Rightarrow> exn + pyval"
  Retrieval :: "pyval \<Rightarrow> exn + string"
  groudedness :: "pyval \<Rightarrow> pyval \<Rightarrow> exn + nat list"
  get_message :: "string \<Rightarrow> string"
  unicode_digit :: "nat \<Rightarrow> bool"
  unicode_decimal :: "nat \<Rightarrow> nat option"
  unicode_space :: "nat \<Rightarrow> bool"
  int_max_str_digits :: nat

section \<open>\<^verbatim>\<open>str.isdigit\<close> and \<^verbatim>\<open>int\<close>\<close>

text \<open>
  Both work on a list of code points. In ASCII, 48 to 57 are the digits \<^verbatim>\<open>0\<close> to \<^verbatim>\<open>9\<close>, 43
  and 45 the signs \<^verbatim>\<open>+\<close> and \<^verbatim>\<open>-\<close>, 95 the underscore, 63 the question mark, 32 the space
  and 9 to 13 the other whitespace that \<^verbatim>\<open>int\<close> skips.
\<close>

definition code_points :: "string \<Rightarrow> nat list" where
  "code_points s = map of_char s"

definition ascii_digit :: "nat \<Rightarrow> bool" where
  "ascii_digit c = (48 \<le> c \<and> c \<le> 57)"

text \<open>
  \<^verbatim>\<open>s.isdigit()\<close>: at least one character and every character a digit. The ASCII digits
  are \<^verbatim>\<open>0\<close> to \<^verbatim>\<open>9\<close>; beyond ASCII the Unicode database decides (the superscript two and
  the Arabic-Indic digits are digits, for instance).
\<close>

definition isdigit_char :: "collaborators \<Rightarrow> nat \<Rightarrow> bool" where
  "isdigit_char env c = (if c < 128 then ascii_digit c else unicode_digit env c)"

definition isdigit :: "collaborators \<Rightarrow> nat list \<Rightarrow> bool" where
  "isdigit env s = (s \<noteq> [] \<and> list_all (isdigit_char env) s)"

text \<open>
  \<^verbatim>\<open>int(s)\<close> first brings the text to ASCII: a character beyond ASCII becomes a space if it
  is whitespace, the ASCII digit of its value if it is a decimal digit, and a question
  mark otherwise (which makes the conversion fail).
\<close>

definition to_ascii :: "collaborators \<Rightarrow> nat \<Rightarrow> nat" where
  "to_ascii env c =
     (if c < 128 then c
      else if unicode_space env c then 32
      else case unicode_decimal env c of Some d \<Rightarrow> 48 + d | None \<Rightarrow> 63)"

definition ascii_space :: "nat \<Rightarrow> bool" where
  "ascii_space c = ((9 \<le> c \<and> c \<le> 13) \<or> c = 32)"

definition strip :: "nat list \<Rightarrow> nat list" where
  "strip s = rev (dropWhile ascii_space (rev (dropWhile ascii_space s)))"

text \<open>The digits of a base-10 literal: decimal digits, single underscores only between digits.\<close>

fun valid_digits :: "nat list \<Rightarrow> bool" where
  "valid_digits [] = False"
| "valid_digits [c] = ascii_digit c"
| "valid_digits (c # d # cs) =
     (ascii_digit c \<and> (if d = 95 then cs \<noteq> [] \<and> valid_digits cs else valid_digits (d # cs)))"

definition digits_value :: "nat list \<Rightarrow> int" where
  "digits_value s = foldl (\<lambda>a c. 10 * a + (int c - 48)) 0 (filter (\<lambda>c. c \<noteq> 95) s)"

definition digit_count :: "nat list \<Rightarrow> nat" where
  "digit_count s = length (filter (\<lambda>c. c \<noteq> 95) s)"

text \<open>
  The limit on the digits of a conversion applies to literals of more than 640 digits,
  when the interpreter has a limit.
\<close>

definition exceeds_limit :: "collaborators \<Rightarrow> nat \<Rightarrow> bool" where
  "exceeds_limit env n = (640 < n \<and> 0 < int_max_str_digits env \<and> int_max_str_digits env < n)"

text \<open>
  \<^verbatim>\<open>int(s)\<close> for a text: surrounding whitespace is dropped, one sign is allowed, the rest
  is a base-10 literal within the limit. \<open>None\<close> stands for the \<^verbatim>\<open>ValueError\<close> raised
  otherwise; the only call, at line 195, is inside the \<^verbatim>\<open>try\<close> of line 188, whose handler
  logs the exception and drops it.
\<close>

definition py_int :: "collaborators \<Rightarrow> nat list \<Rightarrow> int option" where
  "py_int env s =
     (let t = strip (map (to_ascii env) s);
          neg = (t \<noteq> [] \<and> hd t = 45);
          body = (if t \<noteq> [] \<and> (hd t = 45 \<or> hd t = 43) then tl t else t)
      in if valid_digits body \<and> \<not> exceeds_limit env (digit_count body)
         then Some (if neg then - digits_value body else digits_value body)
         else None)"

section \<open>The state of a turn\<close>

text \<open>
  The local variables that the RAG flow updates, and a log of the calls made to the
  completion service (\<open>Completion messages function_call\<close>) and to the dispatched function
  (\<open>Invocation function_name function_args\<close>), in order. The log is not a variable of the
  source; it records what the turn did at its boundary.
\<close>

datatype call =
    Completion "pyval list" string
  | Invocation pyval pyval

record state =
  messages :: "pyval list"
  prompt_tokens :: int
  completion_tokens :: int
  answer_dict :: "string \<rightharpoonup> pyval"
  calls :: "call list"

text \<open>
  A step of the \<^verbatim>\<open>try\<close> block returns a value or raises, and leaves the state as it was at
  that point: what was assigned before an exception stays assigned.
\<close>

type_synonym 'a comp = "state \<Rightarrow> (exn + 'a) \<times> state"

definition bindE :: "exn + 'a \<Rightarrow> ('a \<Rightarrow> exn + 'b) \<Rightarrow> exn + 'b" where
  "bindE r f = (case r of Inl e \<Rightarrow> Inl e | Inr x \<Rightarrow> f x)"

definition returns :: "'a \<Rightarrow> 'a comp" where
  "returns x = (\<lambda>s. (Inr x, s))"

definition evaluate :: "exn + 'a \<Rightarrow> 'a comp" where
  "evaluate r = (\<lambda>s. (r, s))"

definition then_do :: "'a comp \<Rightarrow> ('a \<Rightarrow> 'b comp) \<Rightarrow> 'b comp" where
  "then_do m f = (\<lambda>s. case m s of (Inl e, s') \<Rightarrow> (Inl e, s') | (Inr x, s') \<Rightarrow> f x s')"

section \<open>The RAG flow: the \<^verbatim>\<open>try\<close> block of \<^verbatim>\<open>get_answer\<close>\<close>

text \<open>\<^verbatim>\<open>response = chat_complete(messages, functions=functions_definitions, function_call=mode)\<close>\<close>

definition call_chat_complete :: "collaborators \<Rightarrow> string \<Rightarrow> pyval comp" where
  "call_chat_complete env mode =
     (\<lambda>s. (chat_complete env (messages s) mode,
           s\<lparr>calls := calls s @ [Completion (messages s) mode]\<rparr>))"

text \<open>\<^verbatim>\<open>response['choices'][0]['message']\<close>\<close>

definition choice_message :: "pyval \<Rightarrow> exn + pyval" where
  "choice_message response =
     bindE (getitem_str response ''choices'') (\<lambda>choices.
     bindE (getitem_int choices 0) (\<lambda>choice.
     getitem_str choice ''message''))"

text \<open>\<^verbatim>\<open>response['usage'][k]\<close>\<close>

definition usage :: "pyval \<Rightarrow> string \<Rightarrow> exn + pyval" where
  "usage response k = bindE (getitem_str response ''usage'') (\<lambda>u. getitem_str u k)"

text \<open>\<^verbatim>\<open>prompt_tokens += response['usage']['prompt_tokens']\<close>\<close>

definition add_prompt_tokens :: "pyval \<Rightarrow> unit comp" where
  "add_prompt_tokens response =
     (\<lambda>s. case bindE (usage response ''prompt_tokens'') (add_int (prompt_tokens s)) of
             Inl e \<Rightarrow> (Inl e, s)
           | Inr n \<Rightarrow> (Inr (), s\<lparr>prompt_tokens := n\<rparr>))"

text \<open>\<^verbatim>\<open>completion_tokens += response['usage']['completion_tokens']\<close>\<close>

definition add_completion_tokens :: "pyval \<Rightarrow> unit comp" where
  "add_completion_tokens response =
     (\<lambda>s. case bindE (usage response ''completion_tokens'') (add_int (completion_tokens s)) of
             Inl e \<Rightarrow> (Inl e, s)
           | Inr n \<Rightarrow> (Inr (), s\<lparr>completion_tokens := n\<rparr>))"

text \<open>Lines 112 to 115 and 144 to 147: one completion call; the result is \<^verbatim>\<open>response_message\<close>.\<close>

definition completion_round :: "collaborators \<Rightarrow> string \<Rightarrow> pyval comp" where
  "completion_round env mode =
     then_do (call_chat_complete env mode) (\<lambda>response.
     then_do (evaluate (choice_message response)) (\<lambda>response_message.
     then_do (add_prompt_tokens response) (\<lambda>_.
     then_do (add_completion_tokens response) (\<lambda>_.
     returns response_message))))"

text \<open>\<^verbatim>\<open>json.loads(v)\<close>: the argument must be text.\<close>

definition py_json_loads :: "collaborators \<Rightarrow> pyval \<Rightarrow> exn + pyval" where
  "py_json_loads env v =
     (case v of
        PStr s \<Rightarrow> json_loads env s
      | _ \<Rightarrow> Inl (TypeError (''the JSON object must be str, bytes or bytearray, not '' @ type_name v)))"

text \<open>The dispatch table of lines 95 to 97 and the lookup \<^verbatim>\<open>function_dict[function_name]\<close>.\<close>

definition function_dict :: "collaborators \<Rightarrow> (string \<times> (pyval \<Rightarrow> exn + string)) list" where
  "function_dict env = [(''get_sources'', Retrieval env)]"

definition lookup_function :: "collaborators \<Rightarrow> pyval \<Rightarrow> exn + (pyval \<Rightarrow> exn + string)" where
  "lookup_function env function_name =
     (case function_name of
        PStr n \<Rightarrow> (case map_of (function_dict env) n of
                     Some f \<Rightarrow> Inr f
                   | None \<Rightarrow> Inl (KeyError function_name))
      | PList _ \<Rightarrow> Inl (TypeError (''unhashable type: '' @ [CHR 0x27] @ ''list'' @ [CHR 0x27]))
      | PDict _ \<Rightarrow> Inl (TypeError (''unhashable type: '' @ [CHR 0x27] @ ''dict'' @ [CHR 0x27]))
      | _ \<Rightarrow> Inl (KeyError function_name))"

text \<open>Lines 122 to 124: the dispatched function is called on the parsed arguments.\<close>

definition invoke :: "(pyval \<Rightarrow> exn + string) \<Rightarrow> pyval \<Rightarrow> pyval \<Rightarrow> string comp" where
  "invoke function_to_call function_name function_args =
     (\<lambda>s. (function_to_call function_args,
           s\<lparr>calls := calls s @ [Invocation function_name function_args]\<rparr>))"

text \<open>Lines 127 to 141: the function-call message and the function-result message.\<close>

definition function_call_message :: "pyval \<Rightarrow> pyval \<Rightarrow> pyval \<Rightarrow> pyval" where
  "function_call_message role function_name arguments =
     PDict [(''role'', role),
            (''function_call'', PDict [(''name'', function_name), (''arguments'', arguments)]),
            (''content'', PNone)]"

definition function_result_message :: "pyval \<Rightarrow> string \<Rightarrow> pyval" where
  "function_result_message function_name result =
     PDict [(''role'', PStr ''function''), (''name'', function_name), (''content'', PStr result)]"

definition extend_messages :: "pyval list \<Rightarrow> unit comp" where
  "extend_messages ms = (\<lambda>s. (Inr (), s\<lparr>messages := messages s @ ms\<rparr>))"

text \<open>Lines 150 to 155 and 165 to 170: \<^verbatim>\<open>messages.append({"role": ..., "content": ...})\<close>\<close>

definition append_answer :: "pyval \<Rightarrow> unit comp" where
  "append_answer response_message =
     then_do (evaluate (getitem_str response_message ''role'')) (\<lambda>role.
     then_do (evaluate (getitem_str response_message ''content'')) (\<lambda>content.
     extend_messages [PDict [(''role'', role), (''content'', content)]]))"

text \<open>Lines 158 to 160: the answer metadata.\<close>

definition store_metadata :: "pyval \<Rightarrow> pyval \<Rightarrow> string \<Rightarrow> unit comp" where
  "store_metadata function_name function_args result =
     (if function_name = PStr ''get_sources'' then
        (\<lambda>s. case getitem_str function_args ''question'' of
                Inl e \<Rightarrow> (Inl e, s)
              | Inr q \<Rightarrow> (Inr (), s\<lparr>answer_dict := (answer_dict s)(''search_query'' \<mapsto> q,
                                                                  ''sources'' \<mapsto> PStr result)\<rparr>))
      else returns ())"

text \<open>\<^verbatim>\<open>response_message["function_call"]["name"]\<close> and \<^verbatim>\<open>response_message["function_call"]["arguments"]\<close>\<close>

definition function_call_name :: "pyval \<Rightarrow> exn + pyval" where
  "function_call_name response_message =
     bindE (getitem_str response_message ''function_call'') (\<lambda>fc. getitem_str fc ''name'')"

definition function_call_arguments :: "pyval \<Rightarrow> exn + pyval" where
  "function_call_arguments response_message =
     bindE (getitem_str response_message ''function_call'') (\<lambda>fc. getitem_str fc ''arguments'')"

text \<open>Lines 119 to 160: the branch taken when the response carries a function call.\<close>

definition function_round :: "collaborators \<Rightarrow> pyval \<Rightarrow> unit comp" where
  "function_round env response_message =
     then_do (evaluate (function_call_name response_message)) (\<lambda>function_name.
     then_do (evaluate (bindE (function_call_arguments response_message) (py_json_loads env)))
       (\<lambda>function_args.
     then_do (evaluate (lookup_function env function_name)) (\<lambda>function_to_call.
     then_do (invoke function_to_call function_name function_args) (\<lambda>result.
     then_do (evaluate (getitem_str response_message ''role'')) (\<lambda>role.
     then_do (evaluate (function_call_arguments response_message)) (\<lambda>arguments.
     then_do (extend_messages [function_call_message role function_name arguments,
                               function_result_message function_name result]) (\<lambda>_.
     then_do (completion_round env ''none'') (\<lambda>response_message2.
     then_do (append_answer response_message2) (\<lambda>_.
     store_metadata function_name function_args result)))))))))"

text \<open>\<^verbatim>\<open>answer = messages[-1]['content']\<close>\<close>

definition last_content :: "pyval comp" where
  "last_content =
     (\<lambda>s. (case py_index (messages s) (- 1) of
              None \<Rightarrow> Inl (IndexError ''list index out of range'')
            | Some m \<Rightarrow> getitem_str m ''content'', s))"

text \<open>Lines 112 to 173, the body of the \<^verbatim>\<open>try\<close>: the value is \<^verbatim>\<open>answer\<close>.\<close>

definition rag_flow :: "collaborators \<Rightarrow> pyval comp" where
  "rag_flow env =
     then_do (completion_round env ''auto'') (\<lambda>response_message.
     then_do (evaluate (contains_str ''function_call'' response_message)) (\<lambda>has_function_call.
     then_do (if has_function_call then function_round env response_message
              else append_answer response_message) (\<lambda>_.
     last_content)))"

section \<open>\<^verbatim>\<open>get_answer\<close>\<close>

text \<open>Lines 73 to 103: the variables before the \<^verbatim>\<open>try\<close>.\<close>

definition initial_state :: "collaborators \<Rightarrow> pyval list \<Rightarrow> state" where
  "initial_state env history =
     \<lparr>messages = [PDict [(''role'', PStr ''system''), (''content'', PStr (prompt_file env))]]
                  @ get_chat_history_as_messages env history,
      prompt_tokens = 0,
      completion_tokens = 0,
      answer_dict = Map.empty,
      calls = []\<rparr>"

definition rag_round :: "collaborators \<Rightarrow> pyval list \<Rightarrow> (exn + pyval) \<times> state" where
  "rag_round env history = rag_flow env (initial_state env history)"

text \<open>Lines 173 to 178: \<^verbatim>\<open>answer\<close> and \<^verbatim>\<open>rag_processing_error\<close> after the \<^verbatim>\<open>try\<close> statement.\<close>

definition error_answer :: "collaborators \<Rightarrow> exn \<Rightarrow> string" where
  "error_answer env e = get_message env ''ERROR_ANSWER'' @ '' RAG flow: '' @ str_exn e"

definition answer_after :: "collaborators \<Rightarrow> exn + pyval \<Rightarrow> pyval" where
  "answer_after env r = (case r of Inr a \<Rightarrow> a | Inl e \<Rightarrow> PStr (error_answer env e))"

definition rag_processing_error :: "exn + pyval \<Rightarrow> bool" where
  "rag_processing_error r = (case r of Inr _ \<Rightarrow> False | Inl _ \<Rightarrow> True)"

text \<open>
  Line 187, the condition of the quality control step:
  \<^verbatim>\<open>next_to_last['role'] == 'function' and next_to_last['name'] == 'get_sources' and not rag_processing_error\<close>.
  It stands outside both \<^verbatim>\<open>try\<close> statements.
\<close>

definition gate_condition :: "pyval \<Rightarrow> bool \<Rightarrow> exn + bool" where
  "gate_condition next_to_last err =
     bindE (getitem_str next_to_last ''role'') (\<lambda>role.
       if role = PStr ''function'' then
         bindE (getitem_str next_to_last ''name'') (\<lambda>name.
           Inr (name = PStr ''get_sources'' \<and> \<not> err))
       else Inr False)"

text \<open>
  Lines 188 to 203, the second \<^verbatim>\<open>try\<close> statement: the answer and the dictionary after it.
  Every exception in it is logged and dropped.
\<close>

definition quality_gate ::
  "collaborators \<Rightarrow> pyval \<Rightarrow> pyval \<Rightarrow> (string \<rightharpoonup> pyval) \<Rightarrow> pyval \<times> (string \<rightharpoonup> pyval)" where
  "quality_gate env next_to_last answer d =
     (case bindE (getitem_str next_to_last ''content'') (groudedness env answer) of
        Inl e \<Rightarrow> (answer, d)
      | Inr result \<Rightarrow>
          if isdigit env result then
            (case py_int env result of
               None \<Rightarrow> (answer, d)
             | Some gpt_groudedness \<Rightarrow>
                 (if gpt_groudedness < 3 then PStr (get_message env ''UNGROUNDED_ANSWER'') else answer,
                  d(''gpt_groudedness'' \<mapsto> PInt gpt_groudedness)))
          else (answer, d))"

text \<open>Lines 186 to 210: the quality control step and the returned dictionary.\<close>

definition quality_control ::
  "collaborators \<Rightarrow> (exn + pyval) \<times> state \<Rightarrow> exn + (string \<rightharpoonup> pyval)" where
  "quality_control env rs =
     (let r = fst rs; s = snd rs; answer = answer_after env r in
      case py_index (messages s) (- 2) of
        None \<Rightarrow> Inl (IndexError ''list index out of range'')
      | Some next_to_last \<Rightarrow>
          bindE (gate_condition next_to_last (rag_processing_error r)) (\<lambda>enter.
            let (answer', d) = (if enter then quality_gate env next_to_last answer (answer_dict s)
                                else (answer, answer_dict s))
            in Inr (d(''prompt'' \<mapsto> PStr (prompt_file env),
                      ''answer'' \<mapsto> answer',
                      ''prompt_tokens'' \<mapsto> PInt (prompt_tokens s),
                      ''completion_tokens'' \<mapsto> PInt (completion_tokens s)))))"

text \<open>
  \<^verbatim>\<open>get_answer(history)\<close>: \<open>Inr\<close> the dictionary returned, \<open>Inl\<close> the exception that reaches
  the caller.
\<close>

definition get_answer :: "collaborators \<Rightarrow> pyval list \<Rightarrow> exn + (string \<rightharpoonup> pyval)" where
  "get_answer env history = quality_control env (rag_round env history)"

text \<open>The calls made during the turn, in order.\<close>

definition turn_calls :: "collaborators \<Rightarrow> pyval list \<Rightarrow> call list" where
  "turn_calls env history = calls (snd (rag_round env history))"

section \<open>Reading a turn\<close>

text \<open>The completion calls and the invocations in a log of calls.\<close>

fun completion_calls :: "call list \<Rightarrow> (pyval list \<times> string) list" where
  "completion_calls [] = []"
| "completion_calls (Completion ms mode # cs) = (ms, mode) # completion_calls cs"
| "completion_calls (Invocation n a # cs) = completion_calls cs"

fun invocations :: "call list \<Rightarrow> (pyval \<times> pyval) list" where
  "invocations [] = []"
| "invocations (Completion ms mode # cs) = invocations cs"
| "invocations (Invocation n a # cs) = (n, a) # invocations cs"

text \<open>
  The usage value \<open>k\<close> that the completion call on \<open>ms\<close> and \<open>mode\<close> reported, as the
  counters add it; a call that reported none counts as 0.
\<close>

definition call_usage :: "collaborators \<Rightarrow> string \<Rightarrow> pyval list \<times> string \<Rightarrow> int" where
  "call_usage env k c =
     (case bindE (bindE (chat_complete env (fst c) (snd c)) (\<lambda>response. usage response k)) (add_int 0) of
        Inr n \<Rightarrow> n
      | Inl e \<Rightarrow> 0)"

text \<open>Both usage values of a response can be added to the counters.\<close>

definition reports_usage :: "pyval \<Rightarrow> bool" where
  "reports_usage response =
     (case (bindE (usage response ''prompt_tokens'') (add_int 0),
            bindE (usage response ''completion_tokens'') (add_int 0)) of
        (Inr p, Inr c) \<Rightarrow> True
      | _ \<Rightarrow> False)"

text \<open>A field of the returned dictionary; nothing when an exception reached the caller.\<close>

definition result_field :: "string \<Rightarrow> exn + (string \<rightharpoonup> pyval) \<Rightarrow> pyval option" where
  "result_field k r = (case r of Inl e \<Rightarrow> None | Inr d \<Rightarrow> d k)"

section \<open>Example collaborators\<close>

text \<open>
  A completion response as the service returns it, and example collaborators whose
  answers are fixed: the first completion (\<^verbatim>\<open>function_call="auto"\<close>), the second
  (\<^verbatim>\<open>function_call="none"\<close>), the retrieval and the groundedness evaluation. The history is
  handed on as it is.
\<close>

definition response_of :: "pyval \<Rightarrow> int \<Rightarrow> int \<Rightarrow> pyval" where
  "response_of message p c =
     PDict [(''choices'', PList [PDict [(''message'', message)]]),
            (''usage'', PDict [(''prompt_tokens'', PInt p), (''completion_tokens'', PInt c)])]"

definition assistant_message :: "pyval \<Rightarrow> pyval" where
  "assistant_message content = PDict [(''role'', PStr ''assistant''), (''content'', content)]"

definition function_call_directive :: "string \<Rightarrow> string \<Rightarrow> pyval" where
  "function_call_directive name arguments =
     PDict [(''role'', PStr ''assistant''), (''content'', PNone),
            (''function_call'', PDict [(''name'', PStr name), (''arguments'', PStr arguments)])]"

definition question_arguments :: string where
  \<open>question_arguments = ''{"question": "What is policy X?"}''\<close>

definition example_json_loads :: "string \<Rightarrow> exn + pyval" where
  "example_json_loads s =
     (if s = question_arguments then Inr (PDict [(''question'', PStr ''What is policy X?'')])
      else if s = ''{}'' then Inr (PDict [])
      else Inl (Raised ''Expecting value: line 1 column 1 (char 0)''))"

definition example_messages :: "string \<Rightarrow> string" where
  "example_messages k =
     (if k = ''ERROR_ANSWER'' then ''Something went wrong.''
      else if k = ''UNGROUNDED_ANSWER'' then ''I could not find a grounded answer.''
      else k)"

text \<open>
  An excerpt of the Unicode database: the superscripts two, three and one are digits
  without a decimal value; the Arabic-Indic digits U+0660 to U+0669 and the fullwidth
  digits U+FF10 to U+FF19 are decimal digits; the whitespace beyond ASCII.
\<close>

definition excerpt_digit :: "nat \<Rightarrow> bool" where
  "excerpt_digit c = (c = 0xB2 \<or> c = 0xB3 \<or> c = 0xB9 \<or> (0x660 \<le> c \<and> c \<le> 0x669)
     \<or> (0xFF10 \<le> c \<and> c \<le> 0xFF19))"

definition excerpt_decimal :: "nat \<Rightarrow> nat option" where
  "excerpt_decimal c =
     (if 0x660 \<le> c \<and> c \<le> 0x669 then Some (c - 0x660)
      else if 0xFF10 \<le> c \<and> c \<le> 0xFF19 then Some (c - 0xFF10)
      else None)"

definition excerpt_space :: "nat \<Rightarrow> bool" where
  "excerpt_space c = (c = 0x85 \<or> c = 0xA0 \<or> c = 0x1680 \<or> (0x2000 \<le> c \<and> c \<le> 0x200A)
     \<or> c = 0x2028 \<or> c = 0x2029 \<or> c = 0x202F \<or> c = 0x205F \<or> c = 0x3000)"

definition example_points ::
  "(exn + pyval) \<Rightarrow> (exn + pyval) \<Rightarrow> (exn + string) \<Rightarrow> (exn + nat list) \<Rightarrow> collaborators" where
  "example_points first second retrieved score =
     \<lparr>get_chat_history_as_messages = (\<lambda>history. history),
      prompt_file = ''You answer questions about company policies.'',
      chat_complete = (\<lambda>ms mode. if mode = ''auto'' then first else second),
      json_loads = example_json_loads,
      Retrieval = (\<lambda>args. retrieved),
      groudedness = (\<lambda>answer sources. score),
      get_message = example_messages,
      unicode_digit = excerpt_digit,
      unicode_decimal = excerpt_decimal,
      unicode_space = excerpt_space,
      int_max_str_digits = 4300\<rparr>"

text \<open>The same with the text of the evaluation written as a string.\<close>

definition example ::
  "(exn + pyval) \<Rightarrow> (exn + pyval) \<Rightarrow> (exn + string) \<Rightarrow> (exn + string) \<Rightarrow> collaborators" where
  "example first second retrieved score =
     example_points first second retrieved (map_sum (\<lambda>e. e) code_points score)"

definition user_message :: "string \<Rightarrow> pyval" where
  "user_message text = PDict [(''role'', PStr ''user''), (''content'', PStr text)]"

definition service_down :: "exn + pyval" where
  "service_down = Inl (Raised ''503 Service Unavailable'')"

definition calls_get_sources :: "exn + pyval" where
  "calls_get_sources = Inr (response_of (function_call_directive ''get_sources'' question_arguments) 100 20)"

definition calls_search_web :: "exn + pyval" where
  "calls_search_web = Inr (response_of (function_call_directive ''search_web'' ''{}'') 100 20)"

definition calls_get_sources_without_question :: "exn + pyval" where
  "calls_get_sources_without_question =
     Inr (response_of (function_call_directive ''get_sources'' ''{}'') 100 20)"

definition final_answer :: "exn + pyval" where
  "final_answer = Inr (response_of (assistant_message (PStr ''Policy X requires ...'')) 150 30)"

definition direct_reply :: "exn + pyval" where
  "direct_reply = Inr (response_of (assistant_message (PStr ''Hello!'')) 40 5)"

section \<open>Evaluation rules\<close>

lemmas model_defs = get_answer_def quality_control_def rag_round_def rag_flow_def initial_state_def
  completion_round_def call_chat_complete_def choice_message_def usage_def add_prompt_tokens_def
  add_completion_tokens_def then_do_def evaluate_def returns_def bindE_def py_index_def
  function_round_def function_call_name_def function_call_arguments_def py_json_loads_def lookup_function_def function_dict_def invoke_def
  function_call_message_def function_result_message_def extend_messages_def append_answer_def
  store_metadata_def last_content_def answer_after_def error_answer_def rag_processing_error_def
  gate_condition_def quality_gate_def turn_calls_def result_field_def call_usage_def

lemmas parse_defs = isdigit_def isdigit_char_def ascii_digit_def py_int_def strip_def
  ascii_space_def to_ascii_def digits_value_def digit_count_def exceeds_limit_def

lemmas example_defs = example_def example_points_def code_points_def response_of_def assistant_message_def function_call_directive_def
  question_arguments_def example_json_loads_def example_messages_def user_message_def
  service_down_def calls_get_sources_def final_answer_def direct_reply_def
  calls_search_web_def calls_get_sources_without_question_def

section \<open>Properties of the RAG flow\<close>

text \<open>A step either raises, and the whole computation stops in that state, or hands its value on.\<close>

lemma then_do_cases:
  assumes "then_do m f s = (r, s')"
  obtains (raised) e where "m s = (Inl e, s')" "r = Inl e"
        | (continued) x s1 where "m s = (Inr x, s1)" "f x s1 = (r, s')"
  using assms by (auto simp: then_do_def split: prod.splits sum.splits)

lemma evaluate_apply [simp]: "evaluate r s = (r, s)"
  by (simp add: evaluate_def)

lemma returns_apply [simp]: "returns x s = (Inr x, s)"
  by (simp add: returns_def)

lemma add_int_zero: "add_int n v = Inr k \<Longrightarrow> add_int 0 v = Inr (k - n)"
  by (cases v) auto

lemma call_chat_complete_effect:
  "call_chat_complete env mode s = (r, s') \<Longrightarrow>
     r = chat_complete env (messages s) mode \<and> s' = s\<lparr>calls := calls s @ [Completion (messages s) mode]\<rparr>"
  by (auto simp: call_chat_complete_def)

lemma add_prompt_tokens_effect:
  "add_prompt_tokens response s = (r, s') \<Longrightarrow>
     messages s' = messages s \<and> answer_dict s' = answer_dict s \<and> calls s' = calls s \<and> completion_tokens s' = completion_tokens s"
  by (auto simp: add_prompt_tokens_def split: sum.splits)

lemma add_completion_tokens_effect:
  "add_completion_tokens response s = (r, s') \<Longrightarrow>
     messages s' = messages s \<and> answer_dict s' = answer_dict s \<and> calls s' = calls s \<and> prompt_tokens s' = prompt_tokens s"
  by (auto simp: add_completion_tokens_def split: sum.splits)

lemma completion_round_effect:
  assumes "completion_round env mode s = (r, s')"
  shows "messages s' = messages s \<and> answer_dict s' = answer_dict s \<and>
        calls s' = calls s @ [Completion (messages s) mode]"
  using assms unfolding completion_round_def
  by (elim then_do_cases)
     (auto dest!: call_chat_complete_effect add_prompt_tokens_effect add_completion_tokens_effect)

lemma add_prompt_tokens_value:
  "add_prompt_tokens response s = (Inr u, s') \<Longrightarrow>
     bindE (usage response ''prompt_tokens'') (add_int 0) = Inr (prompt_tokens s' - prompt_tokens s)"
  by (auto simp: add_prompt_tokens_def bindE_def dest: add_int_zero split: sum.splits)

lemma add_completion_tokens_value:
  "add_completion_tokens response s = (Inr u, s') \<Longrightarrow>
     bindE (usage response ''completion_tokens'') (add_int 0) = Inr (completion_tokens s' - completion_tokens s)"
  by (auto simp: add_completion_tokens_def bindE_def dest: add_int_zero split: sum.splits)

lemma completion_round_tokens:
  assumes "completion_round env mode s = (Inr rm, s')"
  shows "prompt_tokens s' = prompt_tokens s + call_usage env ''prompt_tokens'' (messages s, mode) \<and>
         completion_tokens s' = completion_tokens s + call_usage env ''completion_tokens'' (messages s, mode)"
proof -
  from assms obtain response s1 s2 u v where
    call: "call_chat_complete env mode s = (Inr response, s1)" and
    p: "add_prompt_tokens response s1 = (Inr u, s2)" and
    c: "add_completion_tokens response s2 = (Inr v, s')"
    unfolding completion_round_def by (elim then_do_cases) auto
  from call have resp: "chat_complete env (messages s) mode = Inr response"
    and s1: "prompt_tokens s1 = prompt_tokens s" "completion_tokens s1 = completion_tokens s"
    by (auto simp: call_chat_complete_def)
  from add_prompt_tokens_value [OF p] add_prompt_tokens_effect [OF p]
       add_completion_tokens_value [OF c] add_completion_tokens_effect [OF c] resp s1
  show ?thesis by (simp add: call_usage_def bindE_def)
qed

lemma append_answer_effect:
  assumes "append_answer rm s = (r, s')"
  shows "answer_dict s' = answer_dict s \<and> calls s' = calls s \<and>
         prompt_tokens s' = prompt_tokens s \<and> completion_tokens s' = completion_tokens s \<and>
         (case r of
            Inl e \<Rightarrow> messages s' = messages s
          | Inr u \<Rightarrow> \<exists>role content. getitem_str rm ''role'' = Inr role \<and>
                      getitem_str rm ''content'' = Inr content \<and>
                      messages s' = messages s @ [PDict [(''role'', role), (''content'', content)]])"
  using assms unfolding append_answer_def
  by (elim then_do_cases) (auto simp: extend_messages_def)

lemma store_metadata_effect:
  assumes "store_metadata n a result s = (r, s')"
  shows "messages s' = messages s \<and> calls s' = calls s \<and>
         prompt_tokens s' = prompt_tokens s \<and> completion_tokens s' = completion_tokens s \<and>
         (case r of
            Inl e \<Rightarrow> answer_dict s' = answer_dict s \<and> n = PStr ''get_sources'' \<and>
                     getitem_str a ''question'' = Inl e
          | Inr u \<Rightarrow> (if n = PStr ''get_sources''
                      then \<exists>q. getitem_str a ''question'' = Inr q \<and>
                             answer_dict s' = (answer_dict s)(''search_query'' \<mapsto> q, ''sources'' \<mapsto> PStr result)
                      else answer_dict s' = answer_dict s))"
  using assms by (auto simp: store_metadata_def split: if_splits sum.splits)

lemma invoke_effect:
  "invoke f n a s = (r, s') \<Longrightarrow> r = f a \<and> s' = s\<lparr>calls := calls s @ [Invocation n a]\<rparr>"
  by (auto simp: invoke_def)

lemma extend_messages_effect:
  "extend_messages ms s = (r, s') \<Longrightarrow> s' = s\<lparr>messages := messages s @ ms\<rparr>"
  by (auto simp: extend_messages_def)

lemma lookup_function_known:
  "lookup_function env n = Inr f \<Longrightarrow> n = PStr ''get_sources'' \<and> f = Retrieval env"
  by (auto simp: lookup_function_def function_dict_def split: pyval.splits if_splits)

lemma py_index_last: "py_index xs (- 1) = (if xs = [] then None else Some (last xs))"
  by (cases xs rule: rev_cases) (auto simp: py_index_def nth_append)

lemma py_index_next_to_last:
  "py_index xs (- 2) = (if length xs < 2 then None else Some (last (butlast xs)))"
proof (cases xs rule: rev_cases)
  case Nil
  then show ?thesis by (simp add: py_index_def)
next
  case (snoc ys y)
  then show ?thesis
    by (cases ys rule: rev_cases) (auto simp: py_index_def nth_append butlast_append)
qed

text \<open>The function round stops before the invocation, after it, or after the second completion call.\<close>

lemma function_round_cases:
  assumes run: "function_round env rm s = (r, s')"
  obtains
    (early) e where "r = Inl e" "s' = s"
  | (invoked) e args where "r = Inl e"
      "function_call_name rm = Inr (PStr ''get_sources'')"
      "s' = s\<lparr>calls := calls s @ [Invocation (PStr ''get_sources'') args]\<rparr>"
  | (second) raw args role result where
      "function_call_name rm = Inr (PStr ''get_sources'')"
      "function_call_arguments rm = Inr raw"
      "py_json_loads env raw = Inr args"
      "Retrieval env args = Inr result"
      "getitem_str rm ''role'' = Inr role"
      "calls s' = calls s @ [Invocation (PStr ''get_sources'') args,
          Completion (messages s @ [function_call_message role (PStr ''get_sources'') raw,
                                    function_result_message (PStr ''get_sources'') result]) ''none'']"
      "case r of
         Inl e \<Rightarrow> answer_dict s' = answer_dict s
       | Inr u \<Rightarrow> \<exists>q role2 content2.
           getitem_str args ''question'' = Inr q \<and>
           answer_dict s' = (answer_dict s)(''search_query'' \<mapsto> q, ''sources'' \<mapsto> PStr result) \<and>
           messages s' = messages s @ [function_call_message role (PStr ''get_sources'') raw,
                                       function_result_message (PStr ''get_sources'') result,
                                       PDict [(''role'', role2), (''content'', content2)]] \<and>
           prompt_tokens s' = prompt_tokens s + call_usage env ''prompt_tokens''
             (messages s @ [function_call_message role (PStr ''get_sources'') raw,
                            function_result_message (PStr ''get_sources'') result], ''none'') \<and>
           completion_tokens s' = completion_tokens s + call_usage env ''completion_tokens''
             (messages s @ [function_call_message role (PStr ''get_sources'') raw,
                            function_result_message (PStr ''get_sources'') result], ''none'')"
proof -
  from run show thesis
    unfolding function_round_def
  proof (elim then_do_cases, goal_cases)
    case (1 e) then show ?case by (intro early) auto
  next
    case (2 n s1 e) then show ?case by (intro early) auto
  next
    case (3 n s1 a s2 e) then show ?case by (intro early) auto
  next
    case (4 n s1 a s2 f s3 e)
    then show ?case 
      by (intro invoked[of e a]) (auto dest!: lookup_function_known invoke_effect)
  next
    case (5 n s1 a s2 f s3 res s4 e)
    then show ?case 
      by (intro invoked[of e a]) (auto dest!: lookup_function_known invoke_effect)
  next
    case (6 n s1 a s2 f s3 res s4 role s5 e)
    then show ?case
      by (intro invoked[of e a]) (auto dest!: lookup_function_known invoke_effect)
  next
    case (7 n s1 a s2 f s3 res s4 role s5 raw s6 e)
    then show ?case by (auto simp: extend_messages_def)
  next
    case (8 n s1 a s2 f s3 res s4 role s5 raw s6 u s7 e)
    then show ?case
      apply -
      apply (rule second[of raw a res role])
      apply (auto simp: bindE_def dest!: lookup_function_known invoke_effect extend_messages_effect completion_round_effect split: sum.splits)
      done
  next
    case (9 n s1 a s2 f s3 res s4 role s5 raw s6 u s7 rm2 s8 e)
    then show ?case
      apply -
      apply (rule second[of raw a res role])
      apply (auto simp: bindE_def dest!: lookup_function_known invoke_effect extend_messages_effect completion_round_effect append_answer_effect split: sum.splits)
      done
  next
    case (10 n s1 a s2 f s3 res s4 role s5 raw s6 u s7 rm2 s8 v s9)
    from 10 have n: "n = PStr ''get_sources''" "f = Retrieval env"
      and name: "function_call_name rm = Inr n"
      and s3: "s1 = s" "s2 = s" "s3 = s"
      and a: "bindE (function_call_arguments rm) (py_json_loads env) = Inr a"
      and role: "getitem_str rm ''role'' = Inr role"
      and raw: "function_call_arguments rm = Inr raw"
      by (auto dest!: lookup_function_known)
    from 10 have s4: "s4 = s\<lparr>calls := calls s @ [Invocation n a]\<rparr>" and res: "f a = Inr res"
      and s6: "s5 = s4" "s6 = s4"
      unfolding s3 by (auto dest!: invoke_effect)
    from 10 have s7: "s7 = s4\<lparr>messages := messages s4 @ [function_call_message role n raw,
                                                   function_result_message n res]\<rparr>"
      unfolding s6 by (auto dest!: extend_messages_effect)
    from 10 have cr: "completion_round env ''none'' s7 = (Inr rm2, s8)"
      and aa: "append_answer rm2 s8 = (Inr v, s9)"
      and sm: "store_metadata n a res s9 = (r, s')"
      by auto
    note c = completion_round_effect [OF cr] completion_round_tokens [OF cr]
    note ap = append_answer_effect [OF aa]
    note st = store_metadata_effect [OF sm]
    show ?case
    proof (rule second [of raw a res role])
      show "py_json_loads env raw = Inr a" using a raw by (simp add: bindE_def)
      show "case r of Inl e \<Rightarrow> answer_dict s' = answer_dict s
         | Inr u \<Rightarrow> \<exists>q role2 content2.
           getitem_str a ''question'' = Inr q \<and>
           answer_dict s' = (answer_dict s)(''search_query'' \<mapsto> q, ''sources'' \<mapsto> PStr res) \<and>
           messages s' = messages s @ [function_call_message role (PStr ''get_sources'') raw,
                                       function_result_message (PStr ''get_sources'') res,
                                       PDict [(''role'', role2), (''content'', content2)]] \<and>
           prompt_tokens s' = prompt_tokens s + call_usage env ''prompt_tokens''
             (messages s @ [function_call_message role (PStr ''get_sources'') raw,
                            function_result_message (PStr ''get_sources'') res], ''none'') \<and>
           completion_tokens s' = completion_tokens s + call_usage env ''completion_tokens''
             (messages s @ [function_call_message role (PStr ''get_sources'') raw,
                            function_result_message (PStr ''get_sources'') res], ''none'')"
        using c ap st unfolding s7 s4 n by (cases r) auto
    qed (use name n res role raw c ap st in \<open>auto simp: s7 s4\<close>)
  qed
qed

lemma last_content_effect:
  "last_content s = (r, s') \<Longrightarrow> s' = s \<and>
     r = (case py_index (messages s) (- 1) of None \<Rightarrow> Inl (IndexError ''list index out of range'')
          | Some m \<Rightarrow> getitem_str m ''content'')"
  by (auto simp: last_content_def)

lemma completion_round_success:
  assumes "completion_round env mode s = (Inr rm, s')"
  shows "\<exists>response. chat_complete env (messages s) mode = Inr response \<and> choice_message response = Inr rm"
  using assms unfolding completion_round_def
  by (elim then_do_cases) (auto simp: call_chat_complete_def)

lemma rag_flow_cases:
  assumes run: "rag_flow env s = (r, s')"
  obtains
    (first) e where "r = Inl e" "messages s' = messages s" "answer_dict s' = answer_dict s"
      "calls s' = calls s @ [Completion (messages s) ''auto'']"
  | (invoked) e args response rm where "r = Inl e" "messages s' = messages s"
      "answer_dict s' = answer_dict s"
      "calls s' = calls s @ [Completion (messages s) ''auto'', Invocation (PStr ''get_sources'') args]"
      "chat_complete env (messages s) ''auto'' = Inr response"
      "choice_message response = Inr rm"
      "contains_str ''function_call'' rm = Inr True"
      "function_call_name rm = Inr (PStr ''get_sources'')"
  | (second) response rm raw args role result where
      "chat_complete env (messages s) ''auto'' = Inr response"
      "choice_message response = Inr rm"
      "contains_str ''function_call'' rm = Inr True"
      "function_call_name rm = Inr (PStr ''get_sources'')"
      "function_call_arguments rm = Inr raw"
      "py_json_loads env raw = Inr args"
      "Retrieval env args = Inr result"
      "getitem_str rm ''role'' = Inr role"
      "calls s' = calls s @ [Completion (messages s) ''auto'', Invocation (PStr ''get_sources'') args,
          Completion (messages s @ [function_call_message role (PStr ''get_sources'') raw,
                                    function_result_message (PStr ''get_sources'') result]) ''none'']"
      "case r of
         Inl e \<Rightarrow> answer_dict s' = answer_dict s
       | Inr answer \<Rightarrow> \<exists>q role2.
           getitem_str args ''question'' = Inr q \<and>
           answer_dict s' = (answer_dict s)(''search_query'' \<mapsto> q, ''sources'' \<mapsto> PStr result) \<and>
           messages s' = messages s @ [function_call_message role (PStr ''get_sources'') raw,
                                       function_result_message (PStr ''get_sources'') result,
                                       PDict [(''role'', role2), (''content'', answer)]] \<and>
           prompt_tokens s' = prompt_tokens s + call_usage env ''prompt_tokens'' (messages s, ''auto'')
             + call_usage env ''prompt_tokens''
             (messages s @ [function_call_message role (PStr ''get_sources'') raw,
                            function_result_message (PStr ''get_sources'') result], ''none'') \<and>
           completion_tokens s' = completion_tokens s + call_usage env ''completion_tokens'' (messages s, ''auto'')
             + call_usage env ''completion_tokens''
             (messages s @ [function_call_message role (PStr ''get_sources'') raw,
                            function_result_message (PStr ''get_sources'') result], ''none'')"
  | (direct) response rm role answer where "r = Inr answer"
      "chat_complete env (messages s) ''auto'' = Inr response"
      "choice_message response = Inr rm"
      "contains_str ''function_call'' rm = Inr False"
      "getitem_str rm ''role'' = Inr role" "getitem_str rm ''content'' = Inr answer"
      "messages s' = messages s @ [PDict [(''role'', role), (''content'', answer)]]"
      "answer_dict s' = answer_dict s"
      "calls s' = calls s @ [Completion (messages s) ''auto'']"
      "prompt_tokens s' = prompt_tokens s + call_usage env ''prompt_tokens'' (messages s, ''auto'')"
      "completion_tokens s' = completion_tokens s + call_usage env ''completion_tokens'' (messages s, ''auto'')"
proof -
  from run show thesis unfolding rag_flow_def
  proof (elim then_do_cases, goal_cases)
    case (1 e)
    then show ?case by (intro that(1)) (auto dest!: completion_round_effect)
  next
    case (2 rm s1 e)
    then show ?case by (intro that(1)) (auto dest!: completion_round_effect)
  next
    case (3 rm s1 b s2 e)
    then have cr: "completion_round env ''auto'' s = (Inr rm, s1)"
      and b: "contains_str ''function_call'' rm = Inr b" and s2: "s2 = s1"
      and br: "(if b then function_round env rm else append_answer rm) s1 = (Inl e, s')"
      and r: "r = Inl e"
      by auto
    note c = completion_round_effect [OF cr]
    from completion_round_success [OF cr] obtain response where
      resp: "chat_complete env (messages s) ''auto'' = Inr response" "choice_message response = Inr rm"
      by blast
    show ?case
    proof (cases b)
      case False
      with br have "append_answer rm s1 = (Inl e, s')" by simp
      from append_answer_effect [OF this] c r show ?thesis by (intro that(1)) auto
    next
      case True
      with br have "function_round env rm s1 = (Inl e, s')" by simp
      then show ?thesis
      proof (cases rule: function_round_cases)
        case (early e')
        with c r show ?thesis by (intro that(1)) auto
      next
        case (invoked e' args)
        with c r resp b True show ?thesis by (intro that(2) [of e args response rm]) auto
      next
        case (second raw args role result)
        with c r resp b True show ?thesis
          by (intro that(3) [of response rm raw args result role]) auto
      qed
    qed
  next
    case (4 rm s1 b s2 u s3)
    then have cr: "completion_round env ''auto'' s = (Inr rm, s1)"
      and b: "contains_str ''function_call'' rm = Inr b" and s2: "s2 = s1"
      and br: "(if b then function_round env rm else append_answer rm) s1 = (Inr u, s3)"
      and lc: "last_content s3 = (r, s')"
      by auto
    note c = completion_round_effect [OF cr] completion_round_tokens [OF cr]
    note l = last_content_effect [OF lc, unfolded py_index_last]
    from completion_round_success [OF cr] obtain response where
      resp: "chat_complete env (messages s) ''auto'' = Inr response" "choice_message response = Inr rm"
      by blast
    show ?case
    proof (cases b)
      case False
      with br have "append_answer rm s1 = (Inr u, s3)" by simp
      from append_answer_effect [OF this] obtain role content where
        "getitem_str rm ''role'' = Inr role" "getitem_str rm ''content'' = Inr content"
        "messages s3 = messages s1 @ [PDict [(''role'', role), (''content'', content)]]"
        "answer_dict s3 = answer_dict s1" "calls s3 = calls s1"
        "prompt_tokens s3 = prompt_tokens s1" "completion_tokens s3 = completion_tokens s1"
        by auto
      with c l resp b False show ?thesis
        by (intro that(4) [of content response rm role]) auto
    next
      case True
      with br have "function_round env rm s1 = (Inr u, s3)" by simp
      then show ?thesis
      proof (cases rule: function_round_cases)
        case (second raw args role result)
        with c l resp b True show ?thesis
          by (intro that(3) [of response rm raw args result role]) (auto simp: add.assoc)
      qed auto
    qed
  qed
qed

section \<open>The caller and exceptions\<close>

text \<open>
  Claim C1 (every history yields a well-formed result, no exception reaches the caller)
  does not hold of the code. Line 186 reads \<^verbatim>\<open>messages[-2]\<close> outside both \<^verbatim>\<open>try\<close>
  statements. When the history gives no messages and the first completion call raises,
  the handler of the RAG flow catches that exception, but \<^verbatim>\<open>messages\<close> still holds the
  system message only, and the read raises \<^verbatim>\<open>IndexError\<close>, which reaches the caller.
\<close>

theorem get_answer_raises_on_empty_history:
  assumes "get_chat_history_as_messages env history = []"
    and "chat_complete env [PDict [(''role'', PStr ''system''), (''content'', PStr (prompt_file env))]]
           ''auto'' = Inl e"
  shows "get_answer env history = Inl (IndexError ''list index out of range'')"
  using assms by (simp add: model_defs)

theorem get_answer_raises_on_empty_history_witness:
  "get_answer (example service_down final_answer (Inr ''Policy X states ...'') (Inr ''4'')) []
     = Inl (IndexError ''list index out of range'')"
  using get_answer_raises_on_empty_history
          [of "example service_down final_answer (Inr ''Policy X states ...'') (Inr ''4'')" "[]"
              "Raised ''503 Service Unavailable''"]
  by (simp add: example_defs)

section \<open>The returned dictionary\<close>

lemma initial_state_simps [simp]:
  "calls (initial_state env history) = []"
  "answer_dict (initial_state env history) = Map.empty"
  "prompt_tokens (initial_state env history) = 0"
  "completion_tokens (initial_state env history) = 0"
  by (simp_all add: initial_state_def)

lemma rag_round_keys:
  assumes "k \<noteq> ''search_query''" "k \<noteq> ''sources''"
  shows "answer_dict (snd (rag_round env history)) k = None"
proof -
  obtain r s' where run: "rag_flow env (initial_state env history) = (r, s')"
    by (cases "rag_flow env (initial_state env history)")
  from run show ?thesis using assms run unfolding rag_round_def
    by (cases rule: rag_flow_cases) (auto split: sum.splits)
qed

lemma rag_round_error_dict:
  assumes "fst (rag_round env history) = Inl e"
  shows "answer_dict (snd (rag_round env history)) = Map.empty"
proof -
  obtain r s' where run: "rag_flow env (initial_state env history) = (r, s')"
    by (cases "rag_flow env (initial_state env history)")
  from run show ?thesis using assms run unfolding rag_round_def
    by (cases rule: rag_flow_cases) (auto split: sum.splits)
qed

lemma quality_gate_cases:
  assumes "quality_gate env ntl answer d = (answer', d')"
  shows "(answer' = answer \<and> d' = d) \<or>
         (\<exists>g. d' = d(''gpt_groudedness'' \<mapsto> PInt g) \<and>
              answer' = (if g < 3 then PStr (get_message env ''UNGROUNDED_ANSWER'') else answer))"
  using assms by (auto simp: quality_gate_def split: sum.splits option.splits if_splits)

lemma gate_condition_error: "gate_condition ntl True = Inr enter \<Longrightarrow> \<not> enter"
  by (auto simp: gate_condition_def bindE_def split: sum.splits if_splits)

lemma quality_control_fields:
  assumes "quality_control env rs = Inr d"
  shows "d ''prompt'' = Some (PStr (prompt_file env))"
    "d ''prompt_tokens'' = Some (PInt (prompt_tokens (snd rs)))"
    "d ''completion_tokens'' = Some (PInt (completion_tokens (snd rs)))"
    "k \<notin> {''prompt'', ''answer'', ''prompt_tokens'', ''completion_tokens'', ''gpt_groudedness''}
       \<Longrightarrow> d k = answer_dict (snd rs) k"
  using assms
  by (auto simp: quality_control_def Let_def bindE_def split: option.splits sum.splits if_splits prod.splits
        dest!: quality_gate_cases)

lemma quality_control_error:
  assumes "fst rs = Inl e" "quality_control env rs = Inr d"
  shows "d ''answer'' = Some (PStr (error_answer env e))"
    "d ''gpt_groudedness'' = answer_dict (snd rs) ''gpt_groudedness''"
  using assms
  by (auto simp: quality_control_def Let_def bindE_def answer_after_def rag_processing_error_def
        split: option.splits sum.splits if_splits prod.splits dest!: gate_condition_error)

section \<open>Turns whose RAG flow raises\<close>

text \<open>
  Claim C2, as stated (an exception in the RAG round gives a result with \<^verbatim>\<open>error=true\<close>),
  fails: the returned dictionary has no \<^verbatim>\<open>error\<close> key. The flag \<^verbatim>\<open>rag_processing_error\<close>
  is a local variable; it only keeps the quality control step from running. Here the
  completion service is down and the history holds one user message.
\<close>

theorem error_turn_has_no_error_field:
  "rag_processing_error
     (fst (rag_round (example service_down final_answer (Inr ''Policy X states ...'') (Inr ''4''))
        [user_message ''What is policy X?''])) \<and>
   result_field ''answer''
     (get_answer (example service_down final_answer (Inr ''Policy X states ...'') (Inr ''4''))
        [user_message ''What is policy X?''])
     = Some (PStr ''Something went wrong. RAG flow: 503 Service Unavailable'') \<and>
   result_field ''error''
     (get_answer (example service_down final_answer (Inr ''Policy X states ...'') (Inr ''4''))
        [user_message ''What is policy X?'']) = None"
  by (simp add: model_defs example_defs)

text \<open>
  Claim C2, amended: when the RAG flow raises \<open>e\<close> and \<^verbatim>\<open>get_answer\<close> returns a dictionary,
  its answer is the text of \<^verbatim>\<open>get_message('ERROR_ANSWER')\<close>, then \<^verbatim>\<open> RAG flow: \<close>, then
  \<^verbatim>\<open>str(e)\<close>, which is not empty; the dictionary has no groundedness score and no
  \<^verbatim>\<open>error\<close> key.
\<close>

theorem error_turn_result:
  assumes "fst (rag_round env history) = Inl e" and "get_answer env history = Inr d"
  shows "d ''answer'' = Some (PStr (get_message env ''ERROR_ANSWER'' @ '' RAG flow: '' @ str_exn e)) \<and>
         get_message env ''ERROR_ANSWER'' @ '' RAG flow: '' @ str_exn e \<noteq> [] \<and>
         d ''gpt_groudedness'' = None \<and> d ''error'' = None"
proof -
  from assms(2) have qc: "quality_control env (rag_round env history) = Inr d"
    by (simp add: get_answer_def)
  from quality_control_error [OF assms(1) qc] quality_control_fields(4) [OF qc, of "''error''"]
  show ?thesis by (simp add: error_answer_def rag_round_keys)
qed

theorem error_turn_result_witness:
  "fst (rag_round (example service_down final_answer (Inr ''Policy X states ...'') (Inr ''4''))
        [user_message ''What is policy X?'']) = Inl (Raised ''503 Service Unavailable'') \<and>
   (\<exists>d. get_answer (example service_down final_answer (Inr ''Policy X states ...'') (Inr ''4''))
          [user_message ''What is policy X?''] = Inr d \<and>
        d ''answer'' = Some (PStr ''Something went wrong. RAG flow: 503 Service Unavailable'') \<and>
        d ''gpt_groudedness'' = None \<and> d ''error'' = None)"
proof -
  let ?env = "example service_down final_answer (Inr ''Policy X states ...'') (Inr ''4'')"
  let ?h = "[user_message ''What is policy X?'']"
  have raised: "fst (rag_round ?env ?h) = Inl (Raised ''503 Service Unavailable'')"
    by (simp add: model_defs example_defs)
  obtain d where d: "get_answer ?env ?h = Inr d"
    by (simp add: model_defs example_defs)
  from error_turn_result [OF raised d] raised d show ?thesis
    by (simp add: example_def example_points_def example_messages_def)
qed

section \<open>The quality control step\<close>

lemma quality_control_cases:
  assumes "quality_control env rs = Inr d"
  obtains next_to_last enter where
    "py_index (messages (snd rs)) (- 2) = Some next_to_last"
    "gate_condition next_to_last (rag_processing_error (fst rs)) = Inr enter"
    "\<not> enter \<Longrightarrow> d = (answer_dict (snd rs))(''prompt'' \<mapsto> PStr (prompt_file env),
        ''answer'' \<mapsto> answer_after env (fst rs),
        ''prompt_tokens'' \<mapsto> PInt (prompt_tokens (snd rs)),
        ''completion_tokens'' \<mapsto> PInt (completion_tokens (snd rs)))"
    "enter \<Longrightarrow> \<exists>answer' d'. quality_gate env next_to_last (answer_after env (fst rs)) (answer_dict (snd rs)) = (answer', d') \<and>
        d = d'(''prompt'' \<mapsto> PStr (prompt_file env),
        ''answer'' \<mapsto> answer',
        ''prompt_tokens'' \<mapsto> PInt (prompt_tokens (snd rs)),
        ''completion_tokens'' \<mapsto> PInt (completion_tokens (snd rs)))"
proof (cases "py_index (messages (snd rs)) (- 2)")
  case None
  with assms show ?thesis by (simp add: quality_control_def Let_def)
next
  case (Some next_to_last)
  show ?thesis
  proof (cases "gate_condition next_to_last (rag_processing_error (fst rs))")
    case (Inl e)
    with Some assms show ?thesis by (simp add: quality_control_def Let_def bindE_def)
  next
    case (Inr enter)
    show ?thesis
    proof (rule that [OF Some Inr])
      assume "\<not> enter"
      with Some Inr assms
      show "d = (answer_dict (snd rs))(''prompt'' \<mapsto> PStr (prompt_file env),
        ''answer'' \<mapsto> answer_after env (fst rs),
        ''prompt_tokens'' \<mapsto> PInt (prompt_tokens (snd rs)),
        ''completion_tokens'' \<mapsto> PInt (completion_tokens (snd rs)))"
        by (simp add: quality_control_def Let_def bindE_def)
    next
      assume enter
      with Some Inr assms
      show "\<exists>answer' d'. quality_gate env next_to_last (answer_after env (fst rs)) (answer_dict (snd rs)) = (answer', d') \<and>
        d = d'(''prompt'' \<mapsto> PStr (prompt_file env),
        ''answer'' \<mapsto> answer',
        ''prompt_tokens'' \<mapsto> PInt (prompt_tokens (snd rs)),
        ''completion_tokens'' \<mapsto> PInt (completion_tokens (snd rs)))"
        by (cases "quality_gate env next_to_last (answer_after env (fst rs)) (answer_dict (snd rs))")
           (simp add: quality_control_def Let_def bindE_def)
    qed
  qed
qed

lemma gate_condition_enter:
  "gate_condition ntl err = Inr True \<Longrightarrow> \<not> err"
  by (auto simp: gate_condition_def bindE_def split: sum.splits if_splits)



lemma quality_control_score:
  assumes qc: "quality_control env rs = Inr d" and none: "answer_dict (snd rs) ''gpt_groudedness'' = None"
    and score: "d ''gpt_groudedness'' = Some v"
  shows "\<exists>answer g. fst rs = Inr answer \<and> v = PInt g \<and>
           d ''answer'' = Some (if g < 3 then PStr (get_message env ''UNGROUNDED_ANSWER'') else answer)"
  using qc
proof (cases rule: quality_control_cases)
  case (1 next_to_last enter)
  show ?thesis
  proof (cases enter)
    case False
    with 1(3) none score show ?thesis by simp
  next
    case True
    with 1(2) have "\<not> rag_processing_error (fst rs)" by (auto dest: gate_condition_enter)
    then obtain answer where ok: "fst rs = Inr answer"
      by (cases "fst rs") (auto simp: rag_processing_error_def)
    from 1(4) [OF True] obtain answer' d' where
      g: "quality_gate env next_to_last answer (answer_dict (snd rs)) = (answer', d')" and
      d: "d = d'(''prompt'' \<mapsto> PStr (prompt_file env), ''answer'' \<mapsto> answer',
        ''prompt_tokens'' \<mapsto> PInt (prompt_tokens (snd rs)),
        ''completion_tokens'' \<mapsto> PInt (completion_tokens (snd rs)))"
      using ok by (auto simp: answer_after_def)
    from d have fields: "d ''gpt_groudedness'' = d' ''gpt_groudedness''" "d ''answer'' = Some answer'"
      by simp_all
    from quality_gate_cases [OF g] show ?thesis
    proof (elim disjE conjE exE)
      assume "d' = answer_dict (snd rs)"
      with fields none score show ?thesis by simp
    next
      fix g assume "d' = (answer_dict (snd rs))(''gpt_groudedness'' \<mapsto> PInt g)"
        "answer' = (if g < 3 then PStr (get_message env ''UNGROUNDED_ANSWER'') else answer)"
      with fields score ok show ?thesis by simp
    qed
  qed
qed

lemma rag_round_invoked_sources:
  assumes "fst (rag_round env history) = Inr answer"
  shows "(invocations (turn_calls env history) \<noteq> []) =
           (answer_dict (snd (rag_round env history)) ''sources'' \<noteq> None)"
    and "(invocations (turn_calls env history) \<noteq> []) =
           (answer_dict (snd (rag_round env history)) ''search_query'' \<noteq> None)"
proof -
  obtain r s' where run: "rag_flow env (initial_state env history) = (r, s')"
    by (cases "rag_flow env (initial_state env history)")
  from run show "(invocations (turn_calls env history) \<noteq> []) =
           (answer_dict (snd (rag_round env history)) ''sources'' \<noteq> None)"
    using assms run unfolding rag_round_def turn_calls_def
    by (cases rule: rag_flow_cases) (auto split: sum.splits)
  from run show "(invocations (turn_calls env history) \<noteq> []) =
           (answer_dict (snd (rag_round env history)) ''search_query'' \<noteq> None)"
    using assms run unfolding rag_round_def turn_calls_def
    by (cases rule: rag_flow_cases) (auto split: sum.splits)
qed

text \<open>
  Claim C5: in every turn that returns a dictionary with a recorded score \<open>n\<close>, the RAG
  flow raised nothing; if \<open>n < 3\<close> the answer is the text of
  \<^verbatim>\<open>get_message('UNGROUNDED_ANSWER')\<close>, if \<open>3 \<le> n\<close> it is the answer of the RAG flow; and
  \<^verbatim>\<open>sources\<close> and \<^verbatim>\<open>search_query\<close> are as the RAG flow stored them, both present when a
  function was invoked in the turn.
\<close>

theorem quality_gate_threshold:
  assumes "get_answer env history = Inr d" and "d ''gpt_groudedness'' = Some (PInt n)"
  shows "\<exists>answer. fst (rag_round env history) = Inr answer \<and>
           (n < 3 \<longrightarrow> d ''answer'' = Some (PStr (get_message env ''UNGROUNDED_ANSWER''))) \<and>
           (3 \<le> n \<longrightarrow> d ''answer'' = Some answer) \<and>
           d ''sources'' = answer_dict (snd (rag_round env history)) ''sources'' \<and>
           d ''search_query'' = answer_dict (snd (rag_round env history)) ''search_query'' \<and>
           (invocations (turn_calls env history) \<noteq> [] \<longrightarrow>
              d ''sources'' \<noteq> None \<and> d ''search_query'' \<noteq> None)"
proof -
  from assms(1) have qc: "quality_control env (rag_round env history) = Inr d"
    by (simp add: get_answer_def)
  from quality_control_score [OF qc _ assms(2)] obtain answer where
    ok: "fst (rag_round env history) = Inr answer" and
    ans: "d ''answer'' = Some (if n < 3 then PStr (get_message env ''UNGROUNDED_ANSWER'') else answer)"
    by (auto simp: rag_round_keys)
  have kept: "d ''sources'' = answer_dict (snd (rag_round env history)) ''sources''"
    "d ''search_query'' = answer_dict (snd (rag_round env history)) ''search_query''"
    using quality_control_fields(4) [OF qc] by simp_all
  from ok ans kept rag_round_invoked_sources [OF ok] show ?thesis by auto
qed

theorem quality_gate_threshold_witness:
  "\<exists>d. get_answer (example calls_get_sources final_answer (Inr ''Policy X states ...'') (Inr ''1''))
          [user_message ''What is policy X?''] = Inr d \<and>
       d ''gpt_groudedness'' = Some (PInt 1) \<and>
       d ''answer'' = Some (PStr ''I could not find a grounded answer.'') \<and>
       d ''sources'' = Some (PStr ''Policy X states ...'') \<and>
       d ''search_query'' = Some (PStr ''What is policy X?'')"
proof -
  let ?env = "example calls_get_sources final_answer (Inr ''Policy X states ...'') (Inr ''1'')"
  let ?h = "[user_message ''What is policy X?'']"
  obtain d where d: "get_answer ?env ?h = Inr d"
    by (simp add: model_defs example_defs parse_defs)
  then have score: "d ''gpt_groudedness'' = Some (PInt 1)"
    by (auto simp: model_defs example_defs parse_defs)
  have dict: "answer_dict (snd (rag_round ?env ?h)) ''sources'' = Some (PStr ''Policy X states ...'')"
    "answer_dict (snd (rag_round ?env ?h)) ''search_query'' = Some (PStr ''What is policy X?'')"
    by (simp_all add: model_defs example_defs)
  from quality_gate_threshold [OF d score] d score dict show ?thesis
    by (simp add: example_def example_points_def example_messages_def)
qed

section \<open>Retrieval metadata\<close>

text \<open>
  Claim C6, as stated (\<^verbatim>\<open>sources\<close> is present if and only if the retrieval function was
  invoked), fails from right to left: here \<^verbatim>\<open>get_sources\<close> is invoked and returns its text,
  then the second completion call raises; the metadata is stored only after that call
  (lines 158 to 160), so the returned dictionary has no \<^verbatim>\<open>sources\<close>.
\<close>

theorem retrieval_invoked_without_sources:
  "invocations (turn_calls (example calls_get_sources service_down (Inr ''Policy X states ...'') (Inr ''4''))
      [user_message ''What is policy X?''])
     = [(PStr ''get_sources'', PDict [(''question'', PStr ''What is policy X?'')])] \<and>
   result_field ''answer''
     (get_answer (example calls_get_sources service_down (Inr ''Policy X states ...'') (Inr ''4''))
        [user_message ''What is policy X?''])
     = Some (PStr ''Something went wrong. RAG flow: 503 Service Unavailable'') \<and>
   result_field ''sources''
     (get_answer (example calls_get_sources service_down (Inr ''Policy X states ...'') (Inr ''4''))
        [user_message ''What is policy X?'']) = None"
  by (simp add: model_defs example_defs)

text \<open>
  Claim C6, amended: in every turn that returns a dictionary, \<^verbatim>\<open>sources\<close> is present if and
  only if a function was invoked and the RAG flow raised nothing; every function invoked
  is \<^verbatim>\<open>get_sources\<close>.
\<close>

theorem sources_iff_retrieval_completed:
  assumes "get_answer env history = Inr d"
  shows "(d ''sources'' \<noteq> None) =
           (invocations (turn_calls env history) \<noteq> [] \<and>
            \<not> rag_processing_error (fst (rag_round env history))) \<and>
         set (map fst (invocations (turn_calls env history))) \<subseteq> {PStr ''get_sources''}"
proof -
  from assms have qc: "quality_control env (rag_round env history) = Inr d"
    by (simp add: get_answer_def)
  have kept: "d ''sources'' = answer_dict (snd (rag_round env history)) ''sources''"
    using quality_control_fields(4) [OF qc] by simp
  obtain r s' where run: "rag_flow env (initial_state env history) = (r, s')"
    by (cases "rag_flow env (initial_state env history)")
  from run show ?thesis
    using kept run unfolding rag_round_def turn_calls_def
    by (cases rule: rag_flow_cases) (auto simp: rag_processing_error_def split: sum.splits)
qed

theorem sources_iff_retrieval_completed_witness:
  "\<exists>d. get_answer (example calls_get_sources final_answer (Inr ''Policy X states ...'') (Inr ''4''))
          [user_message ''What is policy X?''] = Inr d \<and>
       d ''sources'' = Some (PStr ''Policy X states ...'') \<and>
       invocations (turn_calls (example calls_get_sources final_answer (Inr ''Policy X states ...'') (Inr ''4''))
          [user_message ''What is policy X?'']) \<noteq> [] \<and>
       \<not> rag_processing_error
          (fst (rag_round (example calls_get_sources final_answer (Inr ''Policy X states ...'') (Inr ''4''))
             [user_message ''What is policy X?'']))"
proof -
  let ?env = "example calls_get_sources final_answer (Inr ''Policy X states ...'') (Inr ''4'')"
  let ?h = "[user_message ''What is policy X?'']"
  obtain d where d: "get_answer ?env ?h = Inr d"
    by (simp add: model_defs example_defs parse_defs)
  then have "d ''sources'' = Some (PStr ''Policy X states ...'')"
    by (auto simp: model_defs example_defs parse_defs)
  with sources_iff_retrieval_completed [OF d] d show ?thesis
    by simp
qed

section \<open>Token counts\<close>

text \<open>
  Claim C8: in every turn whose RAG flow raised nothing and that returns a dictionary,
  \<^verbatim>\<open>prompt_tokens\<close> and \<^verbatim>\<open>completion_tokens\<close> are the sums of the usage values over the
  completion calls of the turn, which are one when no function was invoked and two when
  one was.
\<close>

theorem token_counts_sum_over_completion_calls:
  assumes "fst (rag_round env history) = Inr answer" and "get_answer env history = Inr d"
  shows "d ''prompt_tokens'' = Some (PInt (sum_list (map (call_usage env ''prompt_tokens'')
            (completion_calls (turn_calls env history))))) \<and>
         d ''completion_tokens'' = Some (PInt (sum_list (map (call_usage env ''completion_tokens'')
            (completion_calls (turn_calls env history))))) \<and>
         length (completion_calls (turn_calls env history)) =
           (if invocations (turn_calls env history) = [] then 1 else 2)"
proof -
  from assms have qc: "quality_control env (rag_round env history) = Inr d"
    by (simp add: get_answer_def)
  note f = quality_control_fields(2,3) [OF qc]
  obtain r s' where run: "rag_flow env (initial_state env history) = (r, s')"
    by (cases "rag_flow env (initial_state env history)")
  from run show ?thesis
    using f assms(1) run unfolding rag_round_def turn_calls_def
    by (cases rule: rag_flow_cases) (auto split: sum.splits)
qed

theorem token_counts_sum_over_completion_calls_witness:
  "\<exists>d. get_answer (example calls_get_sources final_answer (Inr ''Policy X states ...'') (Inr ''4''))
          [user_message ''What is policy X?''] = Inr d \<and>
       d ''prompt_tokens'' = Some (PInt 250) \<and> d ''completion_tokens'' = Some (PInt 50) \<and>
       length (completion_calls (turn_calls
          (example calls_get_sources final_answer (Inr ''Policy X states ...'') (Inr ''4''))
          [user_message ''What is policy X?''])) = 2"
proof -
  let ?env = "example calls_get_sources final_answer (Inr ''Policy X states ...'') (Inr ''4'')"
  let ?h = "[user_message ''What is policy X?'']"
  have ok: "fst (rag_round ?env ?h) = Inr (PStr ''Policy X requires ...'')"
    by (simp add: model_defs example_defs)
  obtain d where d: "get_answer ?env ?h = Inr d"
    by (simp add: model_defs example_defs parse_defs)
  have calls: "turn_calls ?env ?h =
     [Completion ([PDict [(''role'', PStr ''system''), (''content'', PStr (prompt_file ?env))]] @ ?h) ''auto'',
      Invocation (PStr ''get_sources'') (PDict [(''question'', PStr ''What is policy X?'')]),
      Completion ([PDict [(''role'', PStr ''system''), (''content'', PStr (prompt_file ?env))]] @ ?h @
        [function_call_message (PStr ''assistant'') (PStr ''get_sources'') (PStr question_arguments),
         function_result_message (PStr ''get_sources'') ''Policy X states ...'']) ''none'']"
    by (simp add: model_defs example_defs)
  have "call_usage ?env ''prompt_tokens'' (ms, ''auto'') = 100"
    "call_usage ?env ''prompt_tokens'' (ms, ''none'') = 150"
    "call_usage ?env ''completion_tokens'' (ms, ''auto'') = 20"
    "call_usage ?env ''completion_tokens'' (ms, ''none'') = 30" for ms
    by (simp_all add: call_usage_def usage_def bindE_def example_defs)
  with token_counts_sum_over_completion_calls [OF ok d] d calls show ?thesis
    by simp
qed

section \<open>The text of the groundedness evaluation\<close>

lemma ascii_digit_plain:
  "ascii_digit c \<Longrightarrow> \<not> ascii_space c \<and> c \<noteq> 45 \<and> c \<noteq> 43 \<and> c \<noteq> 95 \<and> c < 128"
  by (auto simp: ascii_digit_def ascii_space_def)

lemma to_ascii_digits: "list_all ascii_digit s \<Longrightarrow> map (to_ascii env) s = s"
  by (induction s) (auto simp: to_ascii_def dest: ascii_digit_plain)

lemma dropWhile_no_space:
  "\<forall>c \<in> set s. \<not> ascii_space c \<Longrightarrow> dropWhile ascii_space s = s"
  by (cases s) auto

lemma strip_no_space:
  assumes "\<forall>c \<in> set s. \<not> ascii_space c"
  shows "strip s = s"
  using assms by (simp add: strip_def dropWhile_no_space)

lemma valid_digits_all: "s \<noteq> [] \<Longrightarrow> list_all ascii_digit s \<Longrightarrow> valid_digits s"
  by (induction s rule: valid_digits.induct) (auto dest: ascii_digit_plain)

lemma digit_count_digits: "list_all ascii_digit s \<Longrightarrow> digit_count s = length s"
  by (induction s) (auto simp: digit_count_def dest: ascii_digit_plain)

lemma py_int_decimal_digits:
  assumes "s \<noteq> []" "list_all ascii_digit s"
  shows "isdigit env s"
    and "py_int env s = (if exceeds_limit env (length s) then None else Some (digits_value s))"
proof -
  from assms show "isdigit env s"
    by (auto simp: isdigit_def isdigit_char_def list_all_iff dest: ascii_digit_plain)
  from assms(2) have plain: "\<forall>c \<in> set s. \<not> ascii_space c"
    by (auto simp: list_all_iff dest: ascii_digit_plain)
  from assms have sign: "hd s \<noteq> 45" "hd s \<noteq> 43"
    by (cases s; auto dest: ascii_digit_plain)+
  from to_ascii_digits [OF assms(2)] strip_no_space [OF plain] sign valid_digits_all [OF assms]
       digit_count_digits [OF assms(2)]
  show "py_int env s = (if exceeds_limit env (length s) then None else Some (digits_value s))"
    by (simp add: py_int_def Let_def)
qed

lemma sign_or_space_not_isdigit:
  assumes "c \<in> set s" "c = 45 \<or> c = 43 \<or> ascii_space c"
  shows "\<not> isdigit env s"
proof -
  from assms(2) have "\<not> isdigit_char env c"
    by (auto simp: isdigit_char_def ascii_digit_def ascii_space_def)
  with assms(1) show ?thesis by (auto simp: isdigit_def list_all_iff)
qed

lemma quality_gate_text:
  assumes "bindE (getitem_str next_to_last ''content'') (groudedness env answer) = Inr score_text"
  shows "quality_gate env next_to_last answer d =
     (case (if isdigit env score_text then py_int env score_text else None) of
        None \<Rightarrow> (answer, d)
      | Some g \<Rightarrow> (if g < 3 then PStr (get_message env ''UNGROUNDED_ANSWER'') else answer,
                  d(''gpt_groudedness'' \<mapsto> PInt g)))"
  using assms by (simp add: quality_gate_def)

text \<open>
  Claim C4, as stated (every text that parses as an integer is recorded, negative integers
  and surrounding whitespace included), fails: line 194 tests \<^verbatim>\<open>result.isdigit()\<close> before
  \<^verbatim>\<open>int\<close> is called. The text \<^verbatim>\<open>-1\<close> parses as the integer -1, and no score is recorded for
  it; the answer stays as it was.
\<close>

theorem negative_score_not_recorded:
  "groudedness (example calls_get_sources final_answer (Inr ''Policy X states ...'') (Inr ''-1''))
     (PStr ''Policy X requires ...'') (PStr ''Policy X states ...'') = Inr (code_points ''-1'') \<and>
   py_int (example calls_get_sources final_answer (Inr ''Policy X states ...'') (Inr ''-1''))
     (code_points ''-1'') = Some (- 1) \<and>
   result_field ''answer''
     (get_answer (example calls_get_sources final_answer (Inr ''Policy X states ...'') (Inr ''-1''))
        [user_message ''What is policy X?'']) = Some (PStr ''Policy X requires ...'') \<and>
   result_field ''gpt_groudedness''
     (get_answer (example calls_get_sources final_answer (Inr ''Policy X states ...'') (Inr ''-1''))
        [user_message ''What is policy X?'']) = None"
  by (simp add: model_defs example_defs parse_defs)

text \<open>
  Claim C4, amended: when the quality control step is entered and the evaluation returns a
  text, the score is recorded exactly when the text passes \<^verbatim>\<open>isdigit()\<close> and \<^verbatim>\<open>int\<close> converts
  it, and the recorded score is the value of \<^verbatim>\<open>int\<close>; otherwise the score stays unset and
  the answer is unchanged. So one or more of the digits \<^verbatim>\<open>0\<close> to \<^verbatim>\<open>9\<close>, within the
  interpreter's limit on the digits of a conversion, are recorded with their decimal value;
  a text with a sign or ASCII whitespace is not recorded, whether it parses or not; and
  no text that does not parse as an integer is recorded. In the witness the Arabic-Indic
  digit three (U+0663) is recorded as 3, and 4301 zeros, beyond the limit of 4300, are not
  recorded.
\<close>

theorem score_recorded_iff_isdigit_and_int:
  assumes ok: "fst (rag_round env history) = Inr answer"
    and ntl: "py_index (messages (snd (rag_round env history))) (- 2) = Some next_to_last"
    and gate: "gate_condition next_to_last False = Inr True"
    and ev: "bindE (getitem_str next_to_last ''content'') (groudedness env answer) = Inr score_text"
  shows "\<exists>d. get_answer env history = Inr d \<and>
           (case (if isdigit env score_text then py_int env score_text else None) of
              Some g \<Rightarrow> d ''gpt_groudedness'' = Some (PInt g)
            | None \<Rightarrow> d ''gpt_groudedness'' = None \<and> d ''answer'' = Some answer) \<and>
           (score_text \<noteq> [] \<and> list_all ascii_digit score_text \<and>
            \<not> exceeds_limit env (length score_text) \<longrightarrow>
              d ''gpt_groudedness'' = Some (PInt (digits_value score_text))) \<and>
           ((\<exists>c \<in> set score_text. c = 45 \<or> c = 43 \<or> ascii_space c) \<longrightarrow>
              d ''gpt_groudedness'' = None \<and> d ''answer'' = Some answer) \<and>
           (py_int env score_text = None \<longrightarrow>
              d ''gpt_groudedness'' = None \<and> d ''answer'' = Some answer)"
proof -
  let ?s = "snd (rag_round env history)"
  let ?score = "if isdigit env score_text then py_int env score_text else None"
  let ?g = "quality_gate env next_to_last answer (answer_dict ?s)"
  let ?d = "(snd ?g)(''prompt'' \<mapsto> PStr (prompt_file env), ''answer'' \<mapsto> fst ?g,
                     ''prompt_tokens'' \<mapsto> PInt (prompt_tokens ?s),
                     ''completion_tokens'' \<mapsto> PInt (completion_tokens ?s))"
  have res: "get_answer env history = Inr ?d"
    using ok ntl gate
    by (simp add: get_answer_def quality_control_def Let_def bindE_def answer_after_def
          rag_processing_error_def split_beta)
  have none: "answer_dict ?s ''gpt_groudedness'' = None"
    by (simp add: rag_round_keys)
  have fields: "?d ''gpt_groudedness'' = snd ?g ''gpt_groudedness''" "?d ''answer'' = Some (fst ?g)"
    by simp_all
  have recorded: "?d ''gpt_groudedness'' = Some (PInt g)" if "?score = Some g" for g
    using that unfolding fields quality_gate_text [OF ev] by simp
  have unset: "?d ''gpt_groudedness'' = None \<and> ?d ''answer'' = Some answer" if "?score = None"
    using that none unfolding fields quality_gate_text [OF ev] by simp
  have first: "case ?score of
              Some g \<Rightarrow> ?d ''gpt_groudedness'' = Some (PInt g)
            | None \<Rightarrow> ?d ''gpt_groudedness'' = None \<and> ?d ''answer'' = Some answer"
    using recorded unset by (cases ?score) (simp_all del: fun_upd_apply)
  have digits: "?d ''gpt_groudedness'' = Some (PInt (digits_value score_text))"
    if "score_text \<noteq> [] \<and> list_all ascii_digit score_text \<and> \<not> exceeds_limit env (length score_text)"
  proof (rule recorded)
    from that py_int_decimal_digits [of score_text env]
    show "?score = Some (digits_value score_text)" by simp
  qed
  have marked: "?d ''gpt_groudedness'' = None \<and> ?d ''answer'' = Some answer"
    if "\<exists>c \<in> set score_text. c = 45 \<or> c = 43 \<or> ascii_space c"
  proof (rule unset)
    from that sign_or_space_not_isdigit [of _ score_text env]
    show "?score = None" by auto
  qed
  have unparsed: "?d ''gpt_groudedness'' = None \<and> ?d ''answer'' = Some answer"
    if "py_int env score_text = None"
    using that by (intro unset) simp
  from res first digits marked unparsed show ?thesis
    by (intro exI [of _ ?d] conjI impI) (assumption | blast)+
qed

theorem score_recorded_iff_isdigit_and_int_witness:
  "(\<exists>d. get_answer (example_points calls_get_sources final_answer (Inr ''Policy X states ...'')
             (Inr (code_points ''4'')))
          [user_message ''What is policy X?''] = Inr d \<and>
        d ''gpt_groudedness'' = Some (PInt 4)) \<and>
   (\<exists>d. get_answer (example_points calls_get_sources final_answer (Inr ''Policy X states ...'')
             (Inr [0x663]))
          [user_message ''What is policy X?''] = Inr d \<and>
        d ''gpt_groudedness'' = Some (PInt 3)) \<and>
   (\<exists>d. get_answer (example_points calls_get_sources final_answer (Inr ''Policy X states ...'')
             (Inr (replicate 4301 48)))
          [user_message ''What is policy X?''] = Inr d \<and>
        d ''gpt_groudedness'' = None \<and> d ''answer'' = Some (PStr ''Policy X requires ...''))"
proof -
  let ?env = "\<lambda>t. example_points calls_get_sources final_answer (Inr ''Policy X states ...'') (Inr t)"
  let ?h = "[user_message ''What is policy X?'']"
  let ?ntl = "function_result_message (PStr ''get_sources'') ''Policy X states ...''"
  have ok: "fst (rag_round (?env t) ?h) = Inr (PStr ''Policy X requires ...'')" for t
    by (simp add: model_defs example_defs)
  have ntl: "py_index (messages (snd (rag_round (?env t) ?h))) (- 2) = Some ?ntl" for t
    by (simp add: model_defs example_defs)
  have gate: "gate_condition ?ntl False = Inr True"
    by (simp add: gate_condition_def function_result_message_def bindE_def)
  have ev: "bindE (getitem_str ?ntl ''content'') (groudedness (?env t) (PStr ''Policy X requires ...''))
              = Inr t" for t
    by (simp add: function_result_message_def bindE_def example_points_def)
  note main = score_recorded_iff_isdigit_and_int [OF ok ntl gate ev]
  have four: "code_points ''4'' \<noteq> [] \<and> list_all ascii_digit (code_points ''4'') \<and>
      \<not> exceeds_limit (?env (code_points ''4'')) (length (code_points ''4''))"
    "digits_value (code_points ''4'') = 4"
    by (simp_all add: code_points_def ascii_digit_def exceeds_limit_def digits_value_def)
  have three: "(if isdigit (?env [0x663]) [0x663] then py_int (?env [0x663]) [0x663] else None) = Some 3"
    by (simp add: parse_defs example_points_def excerpt_digit_def excerpt_decimal_def excerpt_space_def)
  have long: "replicate 4301 48 \<noteq> []" "list_all ascii_digit (replicate 4301 (48::nat))"
    "exceeds_limit (?env (replicate 4301 48)) (length (replicate 4301 (48::nat)))"
    by (simp_all add: list_all_iff ascii_digit_def exceeds_limit_def example_points_def)
  from py_int_decimal_digits(2) [OF long(1,2), of "?env (replicate 4301 48)"] long(3)
  have unparsed: "py_int (?env (replicate 4301 48)) (replicate 4301 48) = None"
    by simp
  from main [of "code_points ''4''"] four
  have a: "\<exists>d. get_answer (?env (code_points ''4'')) ?h = Inr d \<and> d ''gpt_groudedness'' = Some (PInt 4)"
    by auto
  from main [of "[0x663]"] three
  have b: "\<exists>d. get_answer (?env [0x663]) ?h = Inr d \<and> d ''gpt_groudedness'' = Some (PInt 3)"
    by auto
  from main [of "replicate 4301 48"] unparsed
  have c: "\<exists>d. get_answer (?env (replicate 4301 48)) ?h = Inr d \<and> d ''gpt_groudedness'' = None \<and>
      d ''answer'' = Some (PStr ''Policy X requires ...'')"
    by auto
  from a b c show ?thesis by (intro conjI)
qed

section \<open>Turns answered without a function call\<close>

lemma initial_state_messages:
  "messages (initial_state env history) =
     PDict [(''role'', PStr ''system''), (''content'', PStr (prompt_file env))]
       # get_chat_history_as_messages env history"
  by (simp add: initial_state_def)

lemma gate_condition_system:
  "gate_condition (PDict [(''role'', PStr ''system''), (''content'', c)]) err = Inr False"
  by (simp add: gate_condition_def bindE_def)

lemma rag_round_direct:
  assumes first: "chat_complete env (messages (initial_state env history)) ''auto'' = Inr response"
    and rm: "choice_message response = Inr rm"
    and nofc: "contains_str ''function_call'' rm = Inr False"
    and ok: "fst (rag_round env history) = Inr answer"
  shows "getitem_str rm ''content'' = Inr answer \<and>
         answer_dict (snd (rag_round env history)) = Map.empty \<and>
         (\<exists>role. messages (snd (rag_round env history)) =
            messages (initial_state env history) @ [PDict [(''role'', role), (''content'', answer)]])"
proof -
  obtain r s' where run: "rag_flow env (initial_state env history) = (r, s')"
    by (cases "rag_flow env (initial_state env history)")
  from run show ?thesis
    using assms run unfolding rag_round_def
    by (cases rule: rag_flow_cases) auto
qed

text \<open>
  Claim C3, as stated (without a function-call directive the answer is the content of the
  first completion's message and no score is set, for every history), fails for a history
  whose last message is a function-result message of \<^verbatim>\<open>get_sources\<close>: after the answer is
  appended that message is \<^verbatim>\<open>messages[-2]\<close>, the condition of line 187 holds, and the
  quality control step runs on the direct answer. Here the evaluation returns \<^verbatim>\<open>1\<close>: the
  score is recorded and the answer \<^verbatim>\<open>Hello!\<close> is replaced.
\<close>

theorem direct_answer_gated:
  "bindE (bindE (chat_complete (example direct_reply final_answer (Inr ''Policy X states ...'') (Inr ''1''))
                  (messages (initial_state
                     (example direct_reply final_answer (Inr ''Policy X states ...'') (Inr ''1''))
                     [user_message ''What is policy X?'',
                      function_result_message (PStr ''get_sources'') ''Policy X states ...'']))
                  ''auto'')
                choice_message)
         (contains_str ''function_call'') = Inr False \<and>
   fst (rag_round (example direct_reply final_answer (Inr ''Policy X states ...'') (Inr ''1''))
          [user_message ''What is policy X?'',
           function_result_message (PStr ''get_sources'') ''Policy X states ...''])
     = Inr (PStr ''Hello!'') \<and>
   result_field ''answer''
     (get_answer (example direct_reply final_answer (Inr ''Policy X states ...'') (Inr ''1''))
        [user_message ''What is policy X?'',
         function_result_message (PStr ''get_sources'') ''Policy X states ...''])
     = Some (PStr ''I could not find a grounded answer.'') \<and>
   result_field ''gpt_groudedness''
     (get_answer (example direct_reply final_answer (Inr ''Policy X states ...'') (Inr ''1''))
        [user_message ''What is policy X?'',
         function_result_message (PStr ''get_sources'') ''Policy X states ...'']) = Some (PInt 1)"
  by (simp add: model_defs example_defs parse_defs)

text \<open>
  Claim C3, amended: in a turn whose first completion response carries no function-call
  directive and whose RAG flow raises nothing, the value of the RAG flow is the content of
  the first completion's message, and a returned dictionary has neither \<^verbatim>\<open>sources\<close> nor
  \<^verbatim>\<open>search_query\<close>; when the history gives no messages, or its last message has a role
  other than \<^verbatim>\<open>function\<close> or a name other than \<^verbatim>\<open>get_sources\<close>, a dictionary is returned,
  its answer is that content and it has no score.
\<close>

theorem direct_answer_result:
  assumes first: "chat_complete env (messages (initial_state env history)) ''auto'' = Inr response"
    and rm: "choice_message response = Inr rm"
    and nofc: "contains_str ''function_call'' rm = Inr False"
    and ok: "fst (rag_round env history) = Inr answer"
  shows "getitem_str rm ''content'' = Inr answer \<and>
         (\<forall>d. get_answer env history = Inr d \<longrightarrow> d ''sources'' = None \<and> d ''search_query'' = None) \<and>
         (get_chat_history_as_messages env history = [] \<or>
          gate_condition (last (get_chat_history_as_messages env history)) False = Inr False \<longrightarrow>
            (\<exists>d. get_answer env history = Inr d \<and> d ''answer'' = Some answer \<and>
                 d ''gpt_groudedness'' = None))"
proof -
  let ?rs = "rag_round env history"
  let ?hist = "get_chat_history_as_messages env history"
  from rag_round_direct [OF assms] obtain role where
    content: "getitem_str rm ''content'' = Inr answer" and
    dict: "answer_dict (snd ?rs) = Map.empty" and
    msgs: "messages (snd ?rs) = messages (initial_state env history) @ [PDict [(''role'', role), (''content'', answer)]]"
    by blast
  have meta: "d ''sources'' = None \<and> d ''search_query'' = None" if "get_answer env history = Inr d" for d
  proof -
    from that have qc: "quality_control env ?rs = Inr d" by (simp add: get_answer_def)
    from quality_control_fields(4) [OF qc, of "''sources''"]
         quality_control_fields(4) [OF qc, of "''search_query''"] dict
    show ?thesis by simp
  qed
  have closed: "\<exists>d. get_answer env history = Inr d \<and> d ''answer'' = Some answer \<and> d ''gpt_groudedness'' = None"
    if gate: "?hist = [] \<or> gate_condition (last ?hist) False = Inr False"
  proof -
    have ntl: "py_index (messages (snd ?rs)) (- 2) = Some (last (messages (initial_state env history)))"
      unfolding msgs py_index_next_to_last by (simp add: initial_state_messages)
    from gate have cond: "gate_condition (last (messages (initial_state env history))) False = Inr False"
      by (auto simp: initial_state_messages gate_condition_system)
    let ?d = "(answer_dict (snd ?rs))(''prompt'' \<mapsto> PStr (prompt_file env), ''answer'' \<mapsto> answer,
                     ''prompt_tokens'' \<mapsto> PInt (prompt_tokens (snd ?rs)),
                     ''completion_tokens'' \<mapsto> PInt (completion_tokens (snd ?rs)))"
    have "get_answer env history = Inr ?d"
      using ok ntl cond
      by (simp add: get_answer_def quality_control_def Let_def bindE_def answer_after_def
            rag_processing_error_def)
    moreover have "?d ''answer'' = Some answer" "?d ''gpt_groudedness'' = None"
      by (simp_all add: dict)
    ultimately show ?thesis by blast
  qed
  from content meta closed show ?thesis by blast
qed

theorem direct_answer_result_witness:
  "\<exists>d. get_answer (example direct_reply final_answer (Inr ''Policy X states ...'') (Inr ''1''))
          [user_message ''Hi there''] = Inr d \<and>
       d ''answer'' = Some (PStr ''Hello!'') \<and> d ''gpt_groudedness'' = None \<and>
       d ''sources'' = None \<and> d ''search_query'' = None"
proof -
  let ?env = "example direct_reply final_answer (Inr ''Policy X states ...'') (Inr ''1'')"
  let ?h = "[user_message ''Hi there'']"
  have first: "chat_complete ?env (messages (initial_state ?env ?h)) ''auto''
                 = Inr (response_of (assistant_message (PStr ''Hello!'')) 40 5)"
    by (simp add: example_def example_points_def direct_reply_def)
  have rm: "choice_message (response_of (assistant_message (PStr ''Hello!'')) 40 5)
              = Inr (assistant_message (PStr ''Hello!''))"
    by (simp add: choice_message_def response_of_def bindE_def py_index_def)
  have nofc: "contains_str ''function_call'' (assistant_message (PStr ''Hello!'')) = Inr False"
    by (simp add: assistant_message_def)
  have ok: "fst (rag_round ?env ?h) = Inr (PStr ''Hello!'')"
    by (simp add: model_defs example_defs)
  have gate: "gate_condition (last (get_chat_history_as_messages ?env ?h)) False = Inr False"
    by (simp add: example_def example_points_def user_message_def gate_condition_def bindE_def)
  from direct_answer_result [OF first rm nofc ok] gate show ?thesis
    by blast
qed

section \<open>The second completion call\<close>

text \<open>
  Claim C7: in a turn whose first response carries a function-call directive that names a
  function of the dispatch table, every completion call after the first is made with
  \<^verbatim>\<open>function_call="none"\<close> on the initial messages followed by exactly two messages: the
  function-call message (the role of the response, the name and the argument text of the
  directive, content \<^verbatim>\<open>None\<close>) and, next to it, the function-result message with the same
  name and the text the function returned. There is at most one such call, and there is
  one whenever the RAG flow raises nothing.
\<close>

theorem second_completion_messages:
  assumes first: "chat_complete env (messages (initial_state env history)) ''auto'' = Inr response"
    and rm: "choice_message response = Inr rm"
    and fc: "contains_str ''function_call'' rm = Inr True"
    and name: "function_call_name rm = Inr n"
    and known: "lookup_function env n = Inr f"
  shows "(\<forall>(ms, mode) \<in> set (tl (completion_calls (turn_calls env history))).
            \<exists>role raw args result.
              getitem_str rm ''role'' = Inr role \<and> function_call_arguments rm = Inr raw \<and>
              py_json_loads env raw = Inr args \<and> f args = Inr result \<and> mode = ''none'' \<and>
              ms = messages (initial_state env history) @
                   [PDict [(''role'', role),
                           (''function_call'', PDict [(''name'', n), (''arguments'', raw)]),
                           (''content'', PNone)],
                    PDict [(''role'', PStr ''function''), (''name'', n), (''content'', PStr result)]]) \<and>
         length (completion_calls (turn_calls env history)) \<le> 2 \<and>
         (\<forall>answer. fst (rag_round env history) = Inr answer \<longrightarrow>
            length (completion_calls (turn_calls env history)) = 2)"
proof -
  from known have n: "n = PStr ''get_sources''" and f: "f = Retrieval env"
    by (auto dest: lookup_function_known)
  obtain r s' where run: "rag_flow env (initial_state env history) = (r, s')"
    by (cases "rag_flow env (initial_state env history)")
  let ?init = "messages (initial_state env history)"
  let ?shape = "\<lambda>(ms, mode). \<exists>role raw args result.
              getitem_str rm ''role'' = Inr role \<and> function_call_arguments rm = Inr raw \<and>
              py_json_loads env raw = Inr args \<and> f args = Inr result \<and> mode = ''none'' \<and>
              ms = ?init @
                   [PDict [(''role'', role),
                           (''function_call'', PDict [(''name'', n), (''arguments'', raw)]),
                           (''content'', PNone)],
                    PDict [(''role'', PStr ''function''), (''name'', n), (''content'', PStr result)]]"
  have calls: "turn_calls env history = calls s'" and r: "fst (rag_round env history) = r"
    using run by (simp_all add: turn_calls_def rag_round_def)
  from run have "(\<forall>c \<in> set (tl (completion_calls (calls s'))). ?shape c) \<and>
      length (completion_calls (calls s')) \<le> 2 \<and>
      (\<forall>answer. r = Inr answer \<longrightarrow> length (completion_calls (calls s')) = 2)"
  proof (cases rule: rag_flow_cases)
    case (first e)
    then show ?thesis by simp
  next
    case (invoked e args response' rm')
    then show ?thesis by simp
  next
    case (second response' rm' raw args role result)
    with first rm have same: "rm' = rm" by simp
    have "?shape (?init @ [function_call_message role (PStr ''get_sources'') raw,
                          function_result_message (PStr ''get_sources'') result], ''none'')"
      unfolding split_conv function_call_message_def function_result_message_def n f
      using second(5-8) same by blast
    with second(9) show ?thesis by simp
  next
    case (direct response' rm' role answer)
    with first rm fc show ?thesis by simp
  qed
  then show ?thesis unfolding calls r by blast
qed

theorem second_completion_messages_witness:
  "length (completion_calls (turn_calls
        (example calls_get_sources final_answer (Inr ''Policy X states ...'') (Inr ''4''))
        [user_message ''What is policy X?''])) = 2 \<and>
   tl (completion_calls (turn_calls
        (example calls_get_sources final_answer (Inr ''Policy X states ...'') (Inr ''4''))
        [user_message ''What is policy X?'']))
   = [([PDict [(''role'', PStr ''system''),
               (''content'', PStr ''You answer questions about company policies.'')],
        PDict [(''role'', PStr ''user''), (''content'', PStr ''What is policy X?'')],
        PDict [(''role'', PStr ''assistant''),
               (''function_call'', PDict [(''name'', PStr ''get_sources''),
                                          (''arguments'', PStr question_arguments)]),
               (''content'', PNone)],
        PDict [(''role'', PStr ''function''), (''name'', PStr ''get_sources''),
               (''content'', PStr ''Policy X states ...'')]],
       ''none'')]"
proof -
  let ?env = "example calls_get_sources final_answer (Inr ''Policy X states ...'') (Inr ''4'')"
  let ?h = "[user_message ''What is policy X?'']"
  let ?rm = "function_call_directive ''get_sources'' question_arguments"
  have first: "chat_complete ?env (messages (initial_state ?env ?h)) ''auto'' = Inr (response_of ?rm 100 20)"
    by (simp add: example_def example_points_def calls_get_sources_def)
  have rm: "choice_message (response_of ?rm 100 20) = Inr ?rm"
    by (simp add: choice_message_def response_of_def bindE_def py_index_def)
  have fc: "contains_str ''function_call'' ?rm = Inr True"
    by (simp add: function_call_directive_def)
  have name: "function_call_name ?rm = Inr (PStr ''get_sources'')"
    by (simp add: function_call_name_def function_call_directive_def bindE_def)
  have known: "lookup_function ?env (PStr ''get_sources'') = Inr (Retrieval ?env)"
    by (simp add: lookup_function_def function_dict_def)
  have ok: "fst (rag_round ?env ?h) = Inr (PStr ''Policy X requires ...'')"
    by (simp add: model_defs example_defs)
  have sent: "tl (completion_calls (turn_calls ?env ?h))
   = [([PDict [(''role'', PStr ''system''),
               (''content'', PStr ''You answer questions about company policies.'')],
        PDict [(''role'', PStr ''user''), (''content'', PStr ''What is policy X?'')],
        PDict [(''role'', PStr ''assistant''),
               (''function_call'', PDict [(''name'', PStr ''get_sources''),
                                          (''arguments'', PStr question_arguments)]),
               (''content'', PNone)],
        PDict [(''role'', PStr ''function''), (''name'', PStr ''get_sources''),
               (''content'', PStr ''Policy X states ...'')]],
       ''none'')]"
    by (simp add: model_defs example_defs)
  note main = second_completion_messages [OF first rm fc name known]
  from main [THEN conjunct2, THEN conjunct2, rule_format, OF ok] sent show ?thesis
    by simp
qed

section \<open>Running the RAG flow forward\<close>

lemma add_int_shift: "add_int 0 v = Inr k \<Longrightarrow> add_int n v = Inr (n + k)"
  by (cases v) auto

lemma usage_add_shift: "bindE u (add_int 0) = Inr k \<Longrightarrow> bindE u (add_int n) = Inr (n + k)"
  by (cases u) (auto simp: bindE_def dest: add_int_shift)

lemma then_do_Inr: "m s = (Inr x, s1) \<Longrightarrow> then_do m f s = f x s1"
  by (simp add: then_do_def)

lemma then_do_Inl: "m s = (Inl e, s1) \<Longrightarrow> then_do m f s = (Inl e, s1)"
  by (simp add: then_do_def)

lemma completion_round_ok:
  assumes "chat_complete env (messages s) mode = Inr response"
    and "choice_message response = Inr rm"
    and "reports_usage response"
  shows "\<exists>p c. completion_round env mode s =
           (Inr rm, s\<lparr>calls := calls s @ [Completion (messages s) mode],
                      prompt_tokens := p, completion_tokens := c\<rparr>)"
proof -
  from assms(3) obtain p c where
    p: "bindE (usage response ''prompt_tokens'') (add_int 0) = Inr p" and
    c: "bindE (usage response ''completion_tokens'') (add_int 0) = Inr c"
    by (auto simp: reports_usage_def split: sum.splits)
  note p' = usage_add_shift [OF p] and c' = usage_add_shift [OF c]
  show ?thesis
    using assms(1,2)
    by (intro exI [of _ "prompt_tokens s + p"] exI [of _ "completion_tokens s + c"])
       (simp add: completion_round_def then_do_def call_chat_complete_def add_prompt_tokens_def
          add_completion_tokens_def p' c')
qed

lemma rag_flow_lookup_failure:
  assumes first: "chat_complete env (messages s) ''auto'' = Inr response"
    and rm: "choice_message response = Inr rm"
    and usage: "reports_usage response"
    and fc: "contains_str ''function_call'' rm = Inr True"
    and name: "function_call_name rm = Inr n"
    and parse: "bindE (function_call_arguments rm) (py_json_loads env) = Inr args"
    and absent: "lookup_function env n = Inl le"
  shows "fst (rag_flow env s) = Inl le"
proof -
  from completion_round_ok [OF first rm usage] obtain p c where
    cr: "completion_round env ''auto'' s =
           (Inr rm, s\<lparr>calls := calls s @ [Completion (messages s) ''auto''],
                      prompt_tokens := p, completion_tokens := c\<rparr>)"
    by blast
  show ?thesis
    by (simp add: rag_flow_def then_do_def cr fc function_round_def name parse absent)
qed

lemma error_result_fields:
  assumes "fst (rag_round env history) = Inl e" and "get_answer env history = Inr d"
  shows "d ''answer'' = Some (PStr (error_answer env e)) \<and> d ''sources'' = None \<and>
         d ''search_query'' = None \<and> d ''gpt_groudedness'' = None"
proof -
  from assms(2) have qc: "quality_control env (rag_round env history) = Inr d"
    by (simp add: get_answer_def)
  from quality_control_error [OF assms(1) qc]
       quality_control_fields(4) [OF qc, of "''sources''"]
       quality_control_fields(4) [OF qc, of "''search_query''"]
       rag_round_error_dict [OF assms(1)]
  show ?thesis by simp
qed

lemma error_result_returned:
  assumes "fst (rag_round env history) = Inl e"
    and "py_index (messages (snd (rag_round env history))) (- 2) = Some m"
    and "gate_condition m True = Inr b"
  shows "\<exists>d. get_answer env history = Inr d"
  using assms gate_condition_error [OF assms(3)]
  by (simp add: get_answer_def quality_control_def Let_def bindE_def rag_processing_error_def)

section \<open>A function that is not in the dispatch table\<close>

text \<open>
  What such a turn does: the RAG flow raises; the exception is the one of the lookup
  \<^verbatim>\<open>function_dict[function_name]\<close> whenever the usage values could be added and the
  argument text parsed (these come before the lookup, lines 114 to 120). The first
  completion call is the only call of the turn, no metadata is stored, and a returned
  dictionary holds the error answer made from that exception, without \<^verbatim>\<open>sources\<close>,
  \<^verbatim>\<open>search_query\<close> or score. The dictionary is returned whenever line 186 finds a
  next-to-last message and line 187 can read it.
\<close>

lemma unknown_function_error_state:
  assumes first: "chat_complete env (messages (initial_state env history)) ''auto'' = Inr response"
    and rm: "choice_message response = Inr rm"
    and fc: "contains_str ''function_call'' rm = Inr True"
    and name: "function_call_name rm = Inr n"
    and absent: "lookup_function env n = Inl le"
  shows "\<exists>e. fst (rag_round env history) = Inl e \<and>
           (reports_usage response \<and>
            (\<exists>args. bindE (function_call_arguments rm) (py_json_loads env) = Inr args) \<longrightarrow> e = le) \<and>
           turn_calls env history = [Completion (messages (initial_state env history)) ''auto''] \<and>
           answer_dict (snd (rag_round env history)) = Map.empty \<and>
           (\<forall>d. get_answer env history = Inr d \<longrightarrow>
              d ''answer'' = Some (PStr (get_message env ''ERROR_ANSWER'' @ '' RAG flow: '' @ str_exn e)) \<and>
              d ''sources'' = None \<and> d ''search_query'' = None \<and> d ''gpt_groudedness'' = None) \<and>
           ((\<exists>m b. py_index (messages (initial_state env history)) (- 2) = Some m \<and>
                   gate_condition m True = Inr b) \<longrightarrow>
              (\<exists>d. get_answer env history = Inr d))"
proof -
  obtain r s' where run: "rag_flow env (initial_state env history) = (r, s')"
    by (cases "rag_flow env (initial_state env history)")
  have rr: "rag_round env history = (r, s')"
    using run by (simp add: rag_round_def)
  from run obtain e where e: "r = Inl e" and msgs: "messages s' = messages (initial_state env history)"
    and calls: "calls s' = [Completion (messages (initial_state env history)) ''auto'']"
  proof (cases rule: rag_flow_cases)
    case (first e)
    with that show ?thesis by simp
  next
    case (invoked e args response' rm')
    with first rm name absent show ?thesis
      by (auto simp: lookup_function_def function_dict_def)
  next
    case (second response' rm' raw args role result)
    with first rm name absent show ?thesis
      by (auto simp: lookup_function_def function_dict_def)
  next
    case (direct response' rm' role answer)
    with first rm fc show ?thesis by simp
  qed
  have raised: "fst (rag_round env history) = Inl e"
    using rr e by simp
  have precise: "e = le"
    if "reports_usage response \<and> (\<exists>args. bindE (function_call_arguments rm) (py_json_loads env) = Inr args)"
  proof -
    from that obtain args where "reports_usage response"
      "bindE (function_call_arguments rm) (py_json_loads env) = Inr args" by blast
    from rag_flow_lookup_failure [OF first rm this(1) fc name this(2) absent] run e
    show ?thesis by simp
  qed
  have returned: "\<exists>d. get_answer env history = Inr d"
    if "\<exists>m b. py_index (messages (initial_state env history)) (- 2) = Some m \<and>
              gate_condition m True = Inr b"
    using that error_result_returned [OF raised] rr msgs by auto
  from raised precise returned calls rr error_result_fields [OF raised] rag_round_error_dict [OF raised]
  show ?thesis
    by (intro exI [of _ e]) (simp add: turn_calls_def error_answer_def)
qed

lemma unknown_function_error_state_example:
  "fst (rag_round (example calls_search_web final_answer (Inr ''Policy X states ...'') (Inr ''4''))
         [user_message ''What is policy X?'']) = Inl (KeyError (PStr ''search_web'')) \<and>
   turn_calls (example calls_search_web final_answer (Inr ''Policy X states ...'') (Inr ''4''))
         [user_message ''What is policy X?'']
     = [Completion [PDict [(''role'', PStr ''system''),
                           (''content'', PStr ''You answer questions about company policies.'')],
                    PDict [(''role'', PStr ''user''), (''content'', PStr ''What is policy X?'')]]
          ''auto''] \<and>
   (\<exists>d. get_answer (example calls_search_web final_answer (Inr ''Policy X states ...'') (Inr ''4''))
          [user_message ''What is policy X?''] = Inr d \<and>
        d ''answer'' = Some (PStr (''Something went wrong. RAG flow: '' @
                                    [CHR 0x27] @ ''search_web'' @ [CHR 0x27])) \<and>
        d ''sources'' = None \<and> d ''search_query'' = None \<and> d ''gpt_groudedness'' = None)"
proof -
  let ?env = "example calls_search_web final_answer (Inr ''Policy X states ...'') (Inr ''4'')"
  let ?h = "[user_message ''What is policy X?'']"
  let ?rm = "function_call_directive ''search_web'' ''{}''"
  let ?sys = "PDict [(''role'', PStr ''system''), (''content'', PStr (prompt_file ?env))]"
  have first: "chat_complete ?env (messages (initial_state ?env ?h)) ''auto'' = Inr (response_of ?rm 100 20)"
    by (simp add: example_def example_points_def calls_search_web_def)
  have rm: "choice_message (response_of ?rm 100 20) = Inr ?rm"
    by (simp add: choice_message_def response_of_def bindE_def py_index_def)
  have fc: "contains_str ''function_call'' ?rm = Inr True"
    by (simp add: function_call_directive_def)
  have name: "function_call_name ?rm = Inr (PStr ''search_web'')"
    by (simp add: function_call_name_def function_call_directive_def bindE_def)
  have absent: "lookup_function ?env (PStr ''search_web'') = Inl (KeyError (PStr ''search_web''))"
    by (simp add: lookup_function_def function_dict_def)
  have usage: "reports_usage (response_of ?rm 100 20)"
    by (simp add: reports_usage_def usage_def response_of_def bindE_def)
  have parse: "bindE (function_call_arguments ?rm) (py_json_loads ?env) = Inr (PDict [])"
    by (simp add: function_call_arguments_def function_call_directive_def bindE_def py_json_loads_def
          example_def example_points_def example_json_loads_def question_arguments_def)
  have ntl: "py_index (messages (initial_state ?env ?h)) (- 2) = Some ?sys"
    by (simp add: initial_state_def py_index_def example_def example_points_def)
  have gate: "gate_condition ?sys True = Inr False"
    by (simp add: gate_condition_def bindE_def)
  from unknown_function_error_state [OF first rm fc name absent] obtain e where
    main: "fst (rag_round ?env ?h) = Inl e \<and>
           (reports_usage (response_of ?rm 100 20) \<and>
            (\<exists>args. bindE (function_call_arguments ?rm) (py_json_loads ?env) = Inr args) \<longrightarrow>
            e = KeyError (PStr ''search_web'')) \<and>
           turn_calls ?env ?h = [Completion (messages (initial_state ?env ?h)) ''auto''] \<and>
           answer_dict (snd (rag_round ?env ?h)) = Map.empty \<and>
           (\<forall>d. get_answer ?env ?h = Inr d \<longrightarrow>
              d ''answer'' = Some (PStr (get_message ?env ''ERROR_ANSWER'' @ '' RAG flow: '' @ str_exn e)) \<and>
              d ''sources'' = None \<and> d ''search_query'' = None \<and> d ''gpt_groudedness'' = None) \<and>
           ((\<exists>m b. py_index (messages (initial_state ?env ?h)) (- 2) = Some m \<and>
                   gate_condition m True = Inr b) \<longrightarrow>
              (\<exists>d. get_answer ?env ?h = Inr d))"
    by (rule exE)
  note e = main [THEN conjunct1]
  note precise = main [THEN conjunct2, THEN conjunct1]
  note calls = main [THEN conjunct2, THEN conjunct2, THEN conjunct1]
  note fields = main [THEN conjunct2, THEN conjunct2, THEN conjunct2, THEN conjunct2, THEN conjunct1]
  note returned = main [THEN conjunct2, THEN conjunct2, THEN conjunct2, THEN conjunct2, THEN conjunct2]
  have le: "e = KeyError (PStr ''search_web'')"
    by (rule precise [rule_format]) (use usage parse in blast)
  have "\<exists>m b. py_index (messages (initial_state ?env ?h)) (- 2) = Some m \<and> gate_condition m True = Inr b"
    using ntl gate by (intro exI conjI)
  from returned [THEN mp, OF this] obtain d where d: "get_answer ?env ?h = Inr d"
    by (rule exE)
  have rendered: "get_message ?env ''ERROR_ANSWER'' @ '' RAG flow: '' @ str_exn (KeyError (PStr ''search_web''))
     = ''Something went wrong. RAG flow: '' @ [CHR 0x27] @ ''search_web'' @ [CHR 0x27]"
    by (simp add: example_def example_points_def example_messages_def repr_str_def repr_char_def printable_def Let_def)
  have msgs: "messages (initial_state ?env ?h) =
      [PDict [(''role'', PStr ''system''),
                           (''content'', PStr ''You answer questions about company policies.'')],
                    PDict [(''role'', PStr ''user''), (''content'', PStr ''What is policy X?'')]]"
    by (simp add: initial_state_def example_def example_points_def user_message_def)
  from fields [rule_format, OF d] have
    "d ''answer'' = Some (PStr (''Something went wrong. RAG flow: '' @
                                    [CHR 0x27] @ ''search_web'' @ [CHR 0x27])) \<and>
        d ''sources'' = None \<and> d ''search_query'' = None \<and> d ''gpt_groudedness'' = None"
    unfolding le rendered .
  with d have "\<exists>d. get_answer ?env ?h = Inr d \<and>
        d ''answer'' = Some (PStr (''Something went wrong. RAG flow: '' @
                                    [CHR 0x27] @ ''search_web'' @ [CHR 0x27])) \<and>
        d ''sources'' = None \<and> d ''search_query'' = None \<and> d ''gpt_groudedness'' = None"
    by (intro exI [of _ d] conjI) (erule conjE | assumption)+
  with e [unfolded le] calls [unfolded msgs] show ?thesis
    by (intro conjI) assumption+
qed

lemma get_answer_raises_without_history:
  assumes "get_chat_history_as_messages env history = []"
    and "fst (rag_round env history) = Inl e"
    and "messages (snd (rag_round env history)) = messages (initial_state env history)"
  shows "get_answer env history = Inl (IndexError ''list index out of range'')"
  using assms
  by (simp add: get_answer_def quality_control_def Let_def py_index_next_to_last initial_state_messages)

lemma unknown_function_state:
  assumes first: "chat_complete env (messages (initial_state env history)) ''auto'' = Inr response"
    and rm: "choice_message response = Inr rm"
    and fc: "contains_str ''function_call'' rm = Inr True"
    and name: "function_call_name rm = Inr n"
    and absent: "lookup_function env n = Inl le"
  shows "\<exists>e. fst (rag_round env history) = Inl e \<and>
           messages (snd (rag_round env history)) = messages (initial_state env history)"
proof -
  obtain r s' where run: "rag_flow env (initial_state env history) = (r, s')"
    by (cases "rag_flow env (initial_state env history)")
  from run have "\<exists>e. r = Inl e \<and> messages s' = messages (initial_state env history)"
  proof (cases rule: rag_flow_cases)
    case (first e)
    then show ?thesis by simp
  next
    case (invoked e args response' rm')
    with first rm name absent show ?thesis
      by (auto simp: lookup_function_def function_dict_def)
  next
    case (second response' rm' raw args role result)
    with first rm name absent show ?thesis
      by (auto simp: lookup_function_def function_dict_def)
  next
    case (direct response' rm' role answer)
    with first rm fc show ?thesis by simp
  qed
  with run show ?thesis by (simp add: rag_round_def)
qed

text \<open>
  Claim C9 (every turn whose directive names a function outside the dispatch table ends
  with the error answer) does not hold of the code, by the unguarded read of line 186:
  when the history gives no messages, the handler of the RAG flow catches the failed
  lookup, \<^verbatim>\<open>messages\<close> still holds the system message only, and \<^verbatim>\<open>messages[-2]\<close> raises
  \<^verbatim>\<open>IndexError\<close>, which reaches the caller in place of the error answer.
\<close>

theorem unknown_function_raises_on_empty_history:
  assumes hist: "get_chat_history_as_messages env history = []"
    and first: "chat_complete env (messages (initial_state env history)) ''auto'' = Inr response"
    and rm: "choice_message response = Inr rm"
    and fc: "contains_str ''function_call'' rm = Inr True"
    and name: "function_call_name rm = Inr n"
    and absent: "lookup_function env n = Inl le"
  shows "get_answer env history = Inl (IndexError ''list index out of range'')"
proof -
  from unknown_function_state [OF first rm fc name absent] obtain e where
    "fst (rag_round env history) = Inl e"
    "messages (snd (rag_round env history)) = messages (initial_state env history)"
    by blast
  with hist show ?thesis by (rule get_answer_raises_without_history)
qed

theorem unknown_function_raises_on_empty_history_witness:
  "get_answer (example calls_search_web final_answer (Inr ''Policy X states ...'') (Inr ''4'')) []
     = Inl (IndexError ''list index out of range'')"
proof -
  let ?env = "example calls_search_web final_answer (Inr ''Policy X states ...'') (Inr ''4'')"
  let ?rm = "function_call_directive ''search_web'' ''{}''"
  have hist: "get_chat_history_as_messages ?env [] = []"
    by (simp add: example_def example_points_def)
  have first: "chat_complete ?env (messages (initial_state ?env [])) ''auto'' = Inr (response_of ?rm 100 20)"
    by (simp add: example_def example_points_def calls_search_web_def)
  have rm: "choice_message (response_of ?rm 100 20) = Inr ?rm"
    by (simp add: choice_message_def response_of_def bindE_def py_index_def)
  have fc: "contains_str ''function_call'' ?rm = Inr True"
    by (simp add: function_call_directive_def)
  have name: "function_call_name ?rm = Inr (PStr ''search_web'')"
    by (simp add: function_call_name_def function_call_directive_def bindE_def)
  have absent: "lookup_function ?env (PStr ''search_web'') = Inl (KeyError (PStr ''search_web''))"
    by (simp add: lookup_function_def function_dict_def)
  from unknown_function_raises_on_empty_history [OF hist first rm fc name absent]
  show ?thesis .
qed

section \<open>Arguments without a question\<close>

lemma rag_flow_missing_question:
  assumes first: "chat_complete env (messages s) ''auto'' = Inr response"
    and rm: "choice_message response = Inr rm"
    and usage: "reports_usage response"
    and fc: "contains_str ''function_call'' rm = Inr True"
    and name: "function_call_name rm = Inr (PStr ''get_sources'')"
    and raw: "function_call_arguments rm = Inr raw"
    and parse: "py_json_loads env raw = Inr args"
    and retrieved: "Retrieval env args = Inr result"
    and role: "getitem_str rm ''role'' = Inr role"
    and second: "chat_complete env
         (messages s @ [function_call_message role (PStr ''get_sources'') raw,
                        function_result_message (PStr ''get_sources'') result]) ''none'' = Inr response2"
    and rm2: "choice_message response2 = Inr rm2"
    and usage2: "reports_usage response2"
    and role2: "getitem_str rm2 ''role'' = Inr role2"
    and content2: "getitem_str rm2 ''content'' = Inr content2"
    and question: "getitem_str args ''question'' = Inl qe"
  shows "fst (rag_flow env s) = Inl qe \<and>
         messages (snd (rag_flow env s)) =
           messages s @ [function_call_message role (PStr ''get_sources'') raw,
                         function_result_message (PStr ''get_sources'') result,
                         PDict [(''role'', role2), (''content'', content2)]]"
proof -
  let ?sent = "[function_call_message role (PStr ''get_sources'') raw,
                function_result_message (PStr ''get_sources'') result]"
  from completion_round_ok [OF first rm usage] obtain s1 where
    cr1: "completion_round env ''auto'' s = (Inr rm, s1)" and m1: "messages s1 = messages s"
    by auto
  define s2 where "s2 = s1\<lparr>calls := calls s1 @ [Invocation (PStr ''get_sources'') args]\<rparr>"
  have inv: "invoke (Retrieval env) (PStr ''get_sources'') args s1 = (Inr result, s2)"
    by (simp add: invoke_def retrieved s2_def)
  define s3 where "s3 = s2\<lparr>messages := messages s2 @ ?sent\<rparr>"
  have ext: "extend_messages ?sent s2 = (Inr (), s3)"
    by (simp add: extend_messages_def s3_def)
  have m3: "messages s3 = messages s @ ?sent"
    by (simp add: s3_def s2_def m1)
  have second': "chat_complete env (messages s3) ''none'' = Inr response2"
    using second by (simp add: m3)
  from completion_round_ok [OF second' rm2 usage2] obtain s4 where
    cr2: "completion_round env ''none'' s3 = (Inr rm2, s4)" and m4: "messages s4 = messages s3"
    by auto
  define s5 where "s5 = s4\<lparr>messages := messages s4 @ [PDict [(''role'', role2), (''content'', content2)]]\<rparr>"
  have app: "append_answer rm2 s4 = (Inr (), s5)"
    by (simp add: append_answer_def then_do_def role2 content2 extend_messages_def s5_def)
  have sm: "store_metadata (PStr ''get_sources'') args result s5 = (Inl qe, s5)"
    by (simp add: store_metadata_def question)
  have look: "lookup_function env (PStr ''get_sources'') = Inr (Retrieval env)"
    by (simp add: lookup_function_def function_dict_def)
  have fr: "function_round env rm s1 = (Inl qe, s5)"
    by (simp add: function_round_def then_do_def name raw parse bindE_def look inv role ext cr2 app sm)
  have "rag_flow env s = (Inl qe, s5)"
    by (simp add: rag_flow_def then_do_def cr1 fc fr)
  then show ?thesis
    by (simp add: s5_def m4 m3)
qed

lemma gate_condition_function_result:
  "gate_condition (function_result_message n result) True = Inr False"
  by (simp add: gate_condition_def function_result_message_def bindE_def)

text \<open>
  What such a turn does: the RAG flow raises, no metadata is stored, and a returned
  dictionary holds the error answer without \<^verbatim>\<open>sources\<close>, \<^verbatim>\<open>search_query\<close> or score. This is so
  even when the retrieval and the second completion went through and gave a message with
  role and content: then the exception is the one of the read of line 159, and a
  dictionary is returned.
\<close>

lemma missing_question_error_state:
  assumes first: "chat_complete env (messages (initial_state env history)) ''auto'' = Inr response"
    and rm: "choice_message response = Inr rm"
    and fc: "contains_str ''function_call'' rm = Inr True"
    and name: "function_call_name rm = Inr (PStr ''get_sources'')"
    and raw: "function_call_arguments rm = Inr raw"
    and parse: "py_json_loads env raw = Inr args"
    and question: "getitem_str args ''question'' = Inl qe"
  shows "\<exists>e. fst (rag_round env history) = Inl e \<and>
           answer_dict (snd (rag_round env history)) = Map.empty \<and>
           (\<forall>d. get_answer env history = Inr d \<longrightarrow>
              d ''answer'' = Some (PStr (get_message env ''ERROR_ANSWER'' @ '' RAG flow: '' @ str_exn e)) \<and>
              d ''sources'' = None \<and> d ''search_query'' = None \<and> d ''gpt_groudedness'' = None) \<and>
           (\<forall>result role response2 rm2 role2 content2.
              reports_usage response \<and> Retrieval env args = Inr result \<and>
              getitem_str rm ''role'' = Inr role \<and>
              chat_complete env
                (messages (initial_state env history) @
                   [function_call_message role (PStr ''get_sources'') raw,
                    function_result_message (PStr ''get_sources'') result]) ''none'' = Inr response2 \<and>
              choice_message response2 = Inr rm2 \<and> reports_usage response2 \<and>
              getitem_str rm2 ''role'' = Inr role2 \<and> getitem_str rm2 ''content'' = Inr content2
              \<longrightarrow> e = qe \<and> (\<exists>d. get_answer env history = Inr d))"
proof -
  obtain r s' where run: "rag_flow env (initial_state env history) = (r, s')"
    by (cases "rag_flow env (initial_state env history)")
  have rr: "rag_round env history = (r, s')"
    using run by (simp add: rag_round_def)
  from run obtain e where e: "r = Inl e"
  proof (cases rule: rag_flow_cases)
    case (first e)
    with that show ?thesis by simp
  next
    case (invoked e args' response' rm')
    with that show ?thesis by simp
  next
    case (second response' rm' raw' args' role result)
    with first rm raw parse have "args' = args" by simp
    with second(10) question that show ?thesis
      by (cases r) auto
  next
    case (direct response' rm' role answer)
    with first rm fc show ?thesis by simp
  qed
  have raised: "fst (rag_round env history) = Inl e"
    using rr e by simp
  have full: "e = qe \<and> (\<exists>d. get_answer env history = Inr d)"
    if usage: "reports_usage response" and retrieved: "Retrieval env args = Inr result"
      and role: "getitem_str rm ''role'' = Inr role"
      and second: "chat_complete env
                (messages (initial_state env history) @
                   [function_call_message role (PStr ''get_sources'') raw,
                    function_result_message (PStr ''get_sources'') result]) ''none'' = Inr response2"
      and rm2: "choice_message response2 = Inr rm2" and usage2: "reports_usage response2"
      and role2: "getitem_str rm2 ''role'' = Inr role2"
      and content2: "getitem_str rm2 ''content'' = Inr content2"
    for result role response2 rm2 role2 content2
  proof -
    note fwd = rag_flow_missing_question [OF first rm usage fc name raw parse retrieved role second
        rm2 usage2 role2 content2 question]
    from fwd run e have eq: "e = qe" by simp
    from fwd have "py_index (messages (snd (rag_round env history))) (- 2)
        = Some (function_result_message (PStr ''get_sources'') result)"
      by (simp add: rag_round_def py_index_next_to_last butlast_append)
    from error_result_returned [OF raised this gate_condition_function_result] eq
    show ?thesis by simp
  qed
  from raised error_result_fields [OF raised] rag_round_error_dict [OF raised] full
  show ?thesis
    by (intro exI [of _ e]) (simp add: error_answer_def)
qed

lemma missing_question_error_state_example:
  "fst (rag_round (example calls_get_sources_without_question final_answer
                     (Inr ''Policy X states ...'') (Inr ''4''))
         [user_message ''What is policy X?'']) = Inl (KeyError (PStr ''question'')) \<and>
   (\<exists>d. get_answer (example calls_get_sources_without_question final_answer
                       (Inr ''Policy X states ...'') (Inr ''4''))
          [user_message ''What is policy X?''] = Inr d \<and>
        d ''answer'' = Some (PStr (''Something went wrong. RAG flow: '' @
                                    [CHR 0x27] @ ''question'' @ [CHR 0x27])) \<and>
        d ''sources'' = None \<and> d ''search_query'' = None \<and> d ''gpt_groudedness'' = None)"
proof -
  let ?env = "example calls_get_sources_without_question final_answer
                (Inr ''Policy X states ...'') (Inr ''4'')"
  let ?h = "[user_message ''What is policy X?'']"
  let ?rm = "function_call_directive ''get_sources'' ''{}''"
  let ?rm2 = "assistant_message (PStr ''Policy X requires ...'')"
  have first: "chat_complete ?env (messages (initial_state ?env ?h)) ''auto'' = Inr (response_of ?rm 100 20)"
    by (simp add: example_def example_points_def calls_get_sources_without_question_def)
  have rm: "choice_message (response_of ?rm 100 20) = Inr ?rm"
    by (simp add: choice_message_def response_of_def bindE_def py_index_def)
  have fc: "contains_str ''function_call'' ?rm = Inr True"
    by (simp add: function_call_directive_def)
  have name: "function_call_name ?rm = Inr (PStr ''get_sources'')"
    by (simp add: function_call_name_def function_call_directive_def bindE_def)
  have raw: "function_call_arguments ?rm = Inr (PStr ''{}'')"
    by (simp add: function_call_arguments_def function_call_directive_def bindE_def)
  have parse: "py_json_loads ?env (PStr ''{}'') = Inr (PDict [])"
    by (simp add: py_json_loads_def example_def example_points_def example_json_loads_def question_arguments_def)
  have question: "getitem_str (PDict []) ''question'' = Inl (KeyError (PStr ''question''))"
    by simp
  have usage: "reports_usage (response_of ?rm 100 20)"
    by (simp add: reports_usage_def usage_def response_of_def bindE_def)
  have retrieved: "Retrieval ?env (PDict []) = Inr ''Policy X states ...''"
    by (simp add: example_def example_points_def)
  have role: "getitem_str ?rm ''role'' = Inr (PStr ''assistant'')"
    by (simp add: function_call_directive_def)
  have second: "chat_complete ?env
                (messages (initial_state ?env ?h) @
                   [function_call_message (PStr ''assistant'') (PStr ''get_sources'') (PStr ''{}''),
                    function_result_message (PStr ''get_sources'') ''Policy X states ...'']) ''none''
                = Inr (response_of ?rm2 150 30)"
    by (simp add: example_def example_points_def final_answer_def)
  have rm2: "choice_message (response_of ?rm2 150 30) = Inr ?rm2"
    by (simp add: choice_message_def response_of_def bindE_def py_index_def)
  have usage2: "reports_usage (response_of ?rm2 150 30)"
    by (simp add: reports_usage_def usage_def response_of_def bindE_def)
  have role2: "getitem_str ?rm2 ''role'' = Inr (PStr ''assistant'')"
    and content2: "getitem_str ?rm2 ''content'' = Inr (PStr ''Policy X requires ...'')"
    by (simp_all add: assistant_message_def)
  from missing_question_error_state [OF first rm fc name raw parse question] obtain e where
    main: "fst (rag_round ?env ?h) = Inl e \<and>
           answer_dict (snd (rag_round ?env ?h)) = Map.empty \<and>
           (\<forall>d. get_answer ?env ?h = Inr d \<longrightarrow>
              d ''answer'' = Some (PStr (get_message ?env ''ERROR_ANSWER'' @ '' RAG flow: '' @ str_exn e)) \<and>
              d ''sources'' = None \<and> d ''search_query'' = None \<and> d ''gpt_groudedness'' = None) \<and>
           (\<forall>result role response2 rm2 role2 content2.
              reports_usage (response_of ?rm 100 20) \<and> Retrieval ?env (PDict []) = Inr result \<and>
              getitem_str ?rm ''role'' = Inr role \<and>
              chat_complete ?env
                (messages (initial_state ?env ?h) @
                   [function_call_message role (PStr ''get_sources'') (PStr ''{}''),
                    function_result_message (PStr ''get_sources'') result]) ''none'' = Inr response2 \<and>
              choice_message response2 = Inr rm2 \<and> reports_usage response2 \<and>
              getitem_str rm2 ''role'' = Inr role2 \<and> getitem_str rm2 ''content'' = Inr content2
              \<longrightarrow> e = KeyError (PStr ''question'') \<and> (\<exists>d. get_answer ?env ?h = Inr d))"
    by (rule exE)
  note e = main [THEN conjunct1]
  note fields = main [THEN conjunct2, THEN conjunct2, THEN conjunct1]
  note full = main [THEN conjunct2, THEN conjunct2, THEN conjunct2, rule_format]
  have both: "e = KeyError (PStr ''question'') \<and> (\<exists>d. get_answer ?env ?h = Inr d)"
    by (rule full [of "''Policy X states ...''" "PStr ''assistant''" "response_of ?rm2 150 30" ?rm2
                      "PStr ''assistant''" "PStr ''Policy X requires ...''"])
       (intro conjI usage retrieved role second rm2 usage2 role2 content2)
  then have qe: "e = KeyError (PStr ''question'')" by (rule conjunct1)
  from both [THEN conjunct2] obtain d where d: "get_answer ?env ?h = Inr d" by (rule exE)
  have rendered: "get_message ?env ''ERROR_ANSWER'' @ '' RAG flow: '' @ str_exn (KeyError (PStr ''question''))
     = ''Something went wrong. RAG flow: '' @ [CHR 0x27] @ ''question'' @ [CHR 0x27]"
    by (simp add: example_def example_points_def example_messages_def repr_str_def repr_char_def printable_def Let_def)
  from fields [rule_format, OF d] have
    "d ''answer'' = Some (PStr (''Something went wrong. RAG flow: '' @
                                    [CHR 0x27] @ ''question'' @ [CHR 0x27])) \<and>
        d ''sources'' = None \<and> d ''search_query'' = None \<and> d ''gpt_groudedness'' = None"
    unfolding qe rendered .
  with d have "\<exists>d. get_answer ?env ?h = Inr d \<and>
        d ''answer'' = Some (PStr (''Something went wrong. RAG flow: '' @
                                    [CHR 0x27] @ ''question'' @ [CHR 0x27])) \<and>
        d ''sources'' = None \<and> d ''search_query'' = None \<and> d ''gpt_groudedness'' = None"
    by (intro exI [of _ d] conjI) (erule conjE | assumption)+
  with e [unfolded qe] show ?thesis
    by (intro conjI) assumption+
qed

lemma missing_question_state:
  assumes first: "chat_complete env (messages (initial_state env history)) ''auto'' = Inr response"
    and rm: "choice_message response = Inr rm"
    and fc: "contains_str ''function_call'' rm = Inr True"
    and raw: "function_call_arguments rm = Inr raw"
    and parse: "py_json_loads env raw = Inr args"
    and failed: "Retrieval env args = Inl re"
  shows "\<exists>e. fst (rag_round env history) = Inl e \<and>
           messages (snd (rag_round env history)) = messages (initial_state env history)"
proof -
  obtain r s' where run: "rag_flow env (initial_state env history) = (r, s')"
    by (cases "rag_flow env (initial_state env history)")
  from run have "\<exists>e. r = Inl e \<and> messages s' = messages (initial_state env history)"
  proof (cases rule: rag_flow_cases)
    case (first e)
    then show ?thesis by simp
  next
    case (invoked e args response' rm')
    then show ?thesis by simp
  next
    case (second response' rm' raw' args' role result)
    with first rm raw parse failed show ?thesis by simp
  next
    case (direct response' rm' role answer)
    with first rm fc show ?thesis by simp
  qed
  with run show ?thesis by (simp add: rag_round_def)
qed

text \<open>
  Claim C10 (every turn in which \<^verbatim>\<open>get_sources\<close> is called with arguments that lack the
  question becomes an error turn with the error answer) does not hold of the code, by the
  unguarded read of line 186: when the history gives no messages and the retrieval
  raises, the handler of the RAG flow catches that exception, \<^verbatim>\<open>messages\<close> still holds the
  system message only, and \<^verbatim>\<open>messages[-2]\<close> raises \<^verbatim>\<open>IndexError\<close>, which reaches the caller
  in place of the error answer.
\<close>

theorem missing_question_raises_on_empty_history:
  assumes hist: "get_chat_history_as_messages env history = []"
    and first: "chat_complete env (messages (initial_state env history)) ''auto'' = Inr response"
    and rm: "choice_message response = Inr rm"
    and fc: "contains_str ''function_call'' rm = Inr True"
    and name: "function_call_name rm = Inr (PStr ''get_sources'')"
    and raw: "function_call_arguments rm = Inr raw"
    and parse: "py_json_loads env raw = Inr args"
    and question: "getitem_str args ''question'' = Inl qe"
    and failed: "Retrieval env args = Inl re"
  shows "get_answer env history = Inl (IndexError ''list index out of range'')"
proof -
  from missing_question_state [OF first rm fc raw parse failed] obtain e where
    "fst (rag_round env history) = Inl e"
    "messages (snd (rag_round env history)) = messages (initial_state env history)"
    by blast
  with hist show ?thesis by (rule get_answer_raises_without_history)
qed

theorem missing_question_raises_on_empty_history_witness:
  "get_answer (example calls_get_sources_without_question final_answer
                 (Inl (Raised ''search service unavailable'')) (Inr ''4'')) []
     = Inl (IndexError ''list index out of range'')"
proof -
  let ?env = "example calls_get_sources_without_question final_answer
                (Inl (Raised ''search service unavailable'')) (Inr ''4'')"
  let ?rm = "function_call_directive ''get_sources'' ''{}''"
  have hist: "get_chat_history_as_messages ?env [] = []"
    by (simp add: example_def example_points_def)
  have first: "chat_complete ?env (messages (initial_state ?env [])) ''auto'' = Inr (response_of ?rm 100 20)"
    by (simp add: example_def example_points_def calls_get_sources_without_question_def)
  have rm: "choice_message (response_of ?rm 100 20) = Inr ?rm"
    by (simp add: choice_message_def response_of_def bindE_def py_index_def)
  have fc: "contains_str ''function_call'' ?rm = Inr True"
    by (simp add: function_call_directive_def)
  have name: "function_call_name ?rm = Inr (PStr ''get_sources'')"
    by (simp add: function_call_name_def function_call_directive_def bindE_def)
  have raw: "function_call_arguments ?rm = Inr (PStr ''{}'')"
    by (simp add: function_call_arguments_def function_call_directive_def bindE_def)
  have parse: "py_json_loads ?env (PStr ''{}'') = Inr (PDict [])"
    by (simp add: py_json_loads_def example_def example_points_def example_json_loads_def
          question_arguments_def)
  have question: "getitem_str (PDict []) ''question'' = Inl (KeyError (PStr ''question''))"
    by simp
  have failed: "Retrieval ?env (PDict []) = Inl (Raised ''search service unavailable'')"
    by (simp add: example_def example_points_def)
  from missing_question_raises_on_empty_history [OF hist first rm fc name raw parse question failed]
  show ?thesis .
qed

end
